theory Spec2Isabelle
  imports Complex_Main "HOL-Library.Word"
begin

unbundle bit_operations_syntax

section \<open>Conventions of the embedding\<close>

text \<open>
  The repository holds two variants of one header: \<^verbatim>\<open>src/game.hpp\<close> (called the
  first variant below) and \<^verbatim>\<open>src/include/game.hpp\<close> (the second variant, definitions
  suffixed \<open>_inc\<close> where the two differ).

  \<^item> A C++ \<^verbatim>\<open>float\<close> is read as a real number: arithmetic is exact, and rounding,
    infinities and NaN are outside the model. The paddle tick is the exception: it is
    modelled over \<open>flt\<close>, where a result too large for float32 is an infinity and NaN
    propagates as in IEEE 754, because the tick overflows on finite inputs. Division by zero is \<open>0\<close> in HOL and
    an infinity or NaN in C++; the divisors of the code are the paddle height (12 after
    \<^verbatim>\<open>init\<close>), \<^verbatim>\<open>RAND_MAX\<close> and a ball velocity tested against \<open>1e-4\<close> first, and a
    theorem whose statement rests on a quotient assumes the divisor nonzero.
  \<^item> \<^verbatim>\<open>u8\<close> and \<^verbatim>\<open>u32\<close> are words, so \<^verbatim>\<open>score++\<close> wraps as in C++. The \<^verbatim>\<open>i32\<close>
    menu indices stay far from their limits and are integers.
  \<^item> A pointer to a \<^verbatim>\<open>Player\<close> is an option holding the pointee (\<open>None\<close> is
    \<^verbatim>\<open>nullptr\<close>); reading through \<open>None\<close> is the fault \<open>NullDeref\<close>. The two
    pointers of a ball refer to the two distinct \<^verbatim>\<open>Player\<close> members of \<^verbatim>\<open>Window\<close>.
  \<^item> \<^verbatim>\<open>rand()\<close> is not a function of the program state: each call site receives the
    value it would draw as an argument, and \<^verbatim>\<open>RAND_MAX\<close> (a macro of the C library)
    is the parameter \<open>rand_max\<close>.
  \<^item> The global \<^verbatim>\<open>input::buttons\<close> array is passed as an argument.
  \<^item> Drawing and audio calls do not change the modelled state and are left out, except
    in \<open>render_glyph_5x7\<close>, which returns the rectangles it draws.
\<close>

type_synonym u8 = "8 word"
type_synonym u32 = "32 word"

datatype fault = NullDeref | OutOfBounds

subsection \<open>Library functions on \<^verbatim>\<open>float\<close>\<close>

text \<open>\<^verbatim>\<open>std::fmod a b\<close> is \<open>a - n * b\<close> with \<open>n\<close> the quotient truncated toward zero.\<close>

definition trunc_toward_zero :: "real \<Rightarrow> int" where
  "trunc_toward_zero r = (if 0 \<le> r then \<lfloor>r\<rfloor> else \<lceil>r\<rceil>)"

definition fmod :: "real \<Rightarrow> real \<Rightarrow> real" where
  "fmod a b = a - b * of_int (trunc_toward_zero (a / b))"

text \<open>\<^verbatim>\<open>std::round\<close> rounds halves away from zero.\<close>

definition std_round :: "real \<Rightarrow> real" where
  "std_round r = (if 0 \<le> r then of_int \<lfloor>r + 1 / 2\<rfloor> else of_int \<lceil>r - 1 / 2\<rceil>)"

text \<open>\<^verbatim>\<open>utils::round_to\<close> (second variant), with \<open>std::pow 10 decimals\<close> as a power.\<close>

definition round_to :: "real \<Rightarrow> nat \<Rightarrow> real" where
  "round_to v decimals = (let scale = 10 ^ decimals in std_round (v * scale) / scale)"

subsection \<open>float32 with overflow\<close>

text \<open>
  A float32 value is a finite number, an infinity or NaN. A finite result stands for the
  float nearest to it (rounding within the finite range is left out, and so are the
  signs of zeros). The largest finite float32 is \<open>2^128 - 2^104\<close>; under rounding to
  nearest a result of magnitude \<open>2^128 - 2^103\<close> or more becomes an infinity.
\<close>

datatype flt = Fin real | PInf | NInf | NaN

definition overflow_threshold :: real where
  "overflow_threshold = 2 ^ 128 - 2 ^ 103"

definition fl :: "real \<Rightarrow> flt" where
  "fl r = (if r \<ge> overflow_threshold then PInf
           else if r \<le> - overflow_threshold then NInf
           else Fin r)"

fun fl_neg :: "flt \<Rightarrow> flt" where
  "fl_neg (Fin a) = Fin (- a)"
| "fl_neg PInf = NInf"
| "fl_neg NInf = PInf"
| "fl_neg NaN = NaN"

text \<open>Addition: NaN propagates, and the sum of opposite infinities is NaN.\<close>

fun fl_add :: "flt \<Rightarrow> flt \<Rightarrow> flt" where
  "fl_add NaN b = NaN"
| "fl_add a NaN = NaN"
| "fl_add PInf NInf = NaN"
| "fl_add NInf PInf = NaN"
| "fl_add PInf b = PInf"
| "fl_add a PInf = PInf"
| "fl_add NInf b = NInf"
| "fl_add a NInf = NInf"
| "fl_add (Fin a) (Fin b) = fl (a + b)"

definition fl_sub :: "flt \<Rightarrow> flt \<Rightarrow> flt" where
  "fl_sub a b = fl_add a (fl_neg b)"

text \<open>An infinity times a finite number of sign \<open>s\<close>; zero times infinity is NaN.\<close>

definition inf_of_sign :: "real \<Rightarrow> flt" where
  "inf_of_sign s = (if s = 0 then NaN else if s > 0 then PInf else NInf)"

fun fl_mul :: "flt \<Rightarrow> flt \<Rightarrow> flt" where
  "fl_mul NaN b = NaN"
| "fl_mul a NaN = NaN"
| "fl_mul (Fin a) (Fin b) = fl (a * b)"
| "fl_mul (Fin a) PInf = inf_of_sign a"
| "fl_mul (Fin a) NInf = inf_of_sign (- a)"
| "fl_mul PInf (Fin b) = inf_of_sign b"
| "fl_mul NInf (Fin b) = inf_of_sign (- b)"
| "fl_mul PInf PInf = PInf"
| "fl_mul PInf NInf = NInf"
| "fl_mul NInf PInf = NInf"
| "fl_mul NInf NInf = PInf"

text \<open>The comparison \<^verbatim>\<open>a > b\<close>: false as soon as one side is NaN.\<close>

fun fl_gt :: "flt \<Rightarrow> flt \<Rightarrow> bool" where
  "fl_gt NaN b = False"
| "fl_gt a NaN = False"
| "fl_gt (Fin a) (Fin b) = (a > b)"
| "fl_gt PInf PInf = False"
| "fl_gt PInf b = True"
| "fl_gt a PInf = False"
| "fl_gt NInf b = False"
| "fl_gt a NInf = True"

definition fl_lt :: "flt \<Rightarrow> flt \<Rightarrow> bool" where
  "fl_lt a b = fl_gt b a"

section \<open>Renderer: the 5x7 font\<close>

record RenderState =
  memory :: bool
  rs_width :: int
  rs_height :: int

text \<open>\<open>memory\<close> says whether the buffer pointer is non-null.\<close>

text \<open>
  \<^verbatim>\<open>FONT_5x7\<close> of the first variant: digits at 0..9, letters at 10..35, the space at 36.
\<close>

definition FONT_5x7 :: "u8 list list" where
  "FONT_5x7 =
     [[0x0E, 0x11, 0x13, 0x15, 0x19, 0x11, 0x0E],
      [0x04, 0x0C, 0x04, 0x04, 0x04, 0x04, 0x0E],
      [0x0E, 0x11, 0x01, 0x02, 0x04, 0x08, 0x1F],
      [0x0E, 0x11, 0x01, 0x06, 0x01, 0x11, 0x0E],
      [0x02, 0x06, 0x0A, 0x12, 0x1F, 0x02, 0x02],
      [0x1F, 0x10, 0x1E, 0x01, 0x01, 0x11, 0x0E],
      [0x06, 0x08, 0x10, 0x1E, 0x11, 0x11, 0x0E],
      [0x1F, 0x01, 0x02, 0x04, 0x08, 0x08, 0x08],
      [0x0E, 0x11, 0x11, 0x0E, 0x11, 0x11, 0x0E],
      [0x0E, 0x11, 0x11, 0x0F, 0x01, 0x02, 0x0C],
      [0x0E, 0x11, 0x11, 0x1F, 0x11, 0x11, 0x11],
      [0x1E, 0x11, 0x11, 0x1E, 0x11, 0x11, 0x1E],
      [0x0E, 0x11, 0x10, 0x10, 0x10, 0x11, 0x0E],
      [0x1C, 0x12, 0x11, 0x11, 0x11, 0x12, 0x1C],
      [0x1F, 0x10, 0x10, 0x1C, 0x10, 0x10, 0x1F],
      [0x1F, 0x10, 0x10, 0x1C, 0x10, 0x10, 0x10],
      [0x0E, 0x11, 0x10, 0x17, 0x11, 0x11, 0x0F],
      [0x11, 0x11, 0x11, 0x1F, 0x11, 0x11, 0x11],
      [0x0E, 0x04, 0x04, 0x04, 0x04, 0x04, 0x0E],
      [0x07, 0x02, 0x02, 0x02, 0x02, 0x12, 0x0C],
      [0x11, 0x12, 0x14, 0x18, 0x14, 0x12, 0x11],
      [0x10, 0x10, 0x10, 0x10, 0x10, 0x10, 0x1F],
      [0x11, 0x1B, 0x15, 0x15, 0x11, 0x11, 0x11],
      [0x11, 0x19, 0x15, 0x13, 0x11, 0x11, 0x11],
      [0x0E, 0x11, 0x11, 0x11, 0x11, 0x11, 0x0E],
      [0x1E, 0x11, 0x11, 0x1E, 0x10, 0x10, 0x10],
      [0x0E, 0x11, 0x11, 0x11, 0x15, 0x12, 0x0D],
      [0x1E, 0x11, 0x11, 0x1E, 0x14, 0x12, 0x11],
      [0x0F, 0x10, 0x10, 0x0E, 0x01, 0x01, 0x1E],
      [0x1F, 0x04, 0x04, 0x04, 0x04, 0x04, 0x04],
      [0x11, 0x11, 0x11, 0x11, 0x11, 0x11, 0x0E],
      [0x11, 0x11, 0x11, 0x0A, 0x0A, 0x04, 0x04],
      [0x11, 0x11, 0x11, 0x15, 0x15, 0x1B, 0x11],
      [0x11, 0x11, 0x0A, 0x04, 0x0A, 0x11, 0x11],
      [0x11, 0x11, 0x0A, 0x04, 0x04, 0x04, 0x04],
      [0x1F, 0x01, 0x02, 0x04, 0x08, 0x10, 0x1F],
      [0x00, 0x00, 0x00, 0x00, 0x00, 0x00, 0x00]]"

text \<open>The second variant appends the glyphs of \<open>%\<close>, \<open>:\<close>, \<open>-\<close> and \<open>!\<close> at 37..40.\<close>

definition FONT_5x7_inc :: "u8 list list" where
  "FONT_5x7_inc =
     [[0x0E, 0x11, 0x13, 0x15, 0x19, 0x11, 0x0E],
      [0x04, 0x0C, 0x04, 0x04, 0x04, 0x04, 0x0E],
      [0x0E, 0x11, 0x01, 0x02, 0x04, 0x08, 0x1F],
      [0x0E, 0x11, 0x01, 0x06, 0x01, 0x11, 0x0E],
      [0x02, 0x06, 0x0A, 0x12, 0x1F, 0x02, 0x02],
      [0x1F, 0x10, 0x1E, 0x01, 0x01, 0x11, 0x0E],
      [0x06, 0x08, 0x10, 0x1E, 0x11, 0x11, 0x0E],
      [0x1F, 0x01, 0x02, 0x04, 0x08, 0x08, 0x08],
      [0x0E, 0x11, 0x11, 0x0E, 0x11, 0x11, 0x0E],
      [0x0E, 0x11, 0x11, 0x0F, 0x01, 0x02, 0x0C],
      [0x0E, 0x11, 0x11, 0x1F, 0x11, 0x11, 0x11],
      [0x1E, 0x11, 0x11, 0x1E, 0x11, 0x11, 0x1E],
      [0x0E, 0x11, 0x10, 0x10, 0x10, 0x11, 0x0E],
      [0x1C, 0x12, 0x11, 0x11, 0x11, 0x12, 0x1C],
      [0x1F, 0x10, 0x10, 0x1C, 0x10, 0x10, 0x1F],
      [0x1F, 0x10, 0x10, 0x1C, 0x10, 0x10, 0x10],
      [0x0E, 0x11, 0x10, 0x17, 0x11, 0x11, 0x0F],
      [0x11, 0x11, 0x11, 0x1F, 0x11, 0x11, 0x11],
      [0x0E, 0x04, 0x04, 0x04, 0x04, 0x04, 0x0E],
      [0x07, 0x02, 0x02, 0x02, 0x02, 0x12, 0x0C],
      [0x11, 0x12, 0x14, 0x18, 0x14, 0x12, 0x11],
      [0x10, 0x10, 0x10, 0x10, 0x10, 0x10, 0x1F],
      [0x11, 0x1B, 0x15, 0x15, 0x11, 0x11, 0x11],
      [0x11, 0x19, 0x15, 0x13, 0x11, 0x11, 0x11],
      [0x0E, 0x11, 0x11, 0x11, 0x11, 0x11, 0x0E],
      [0x1E, 0x11, 0x11, 0x1E, 0x10, 0x10, 0x10],
      [0x0E, 0x11, 0x11, 0x11, 0x15, 0x12, 0x0D],
      [0x1E, 0x11, 0x11, 0x1E, 0x14, 0x12, 0x11],
      [0x0F, 0x10, 0x10, 0x0E, 0x01, 0x01, 0x1E],
      [0x1F, 0x04, 0x04, 0x04, 0x04, 0x04, 0x04],
      [0x11, 0x11, 0x11, 0x11, 0x11, 0x11, 0x0E],
      [0x11, 0x11, 0x11, 0x0A, 0x0A, 0x04, 0x04],
      [0x11, 0x11, 0x11, 0x15, 0x15, 0x1B, 0x11],
      [0x11, 0x11, 0x0A, 0x04, 0x0A, 0x11, 0x11],
      [0x11, 0x11, 0x0A, 0x04, 0x04, 0x04, 0x04],
      [0x1F, 0x01, 0x02, 0x04, 0x08, 0x10, 0x1F],
      [0x00, 0x00, 0x00, 0x00, 0x00, 0x00, 0x00],
      [0x19, 0x1A, 0x04, 0x08, 0x13, 0x03, 0x00],
      [0x00, 0x04, 0x00, 0x00, 0x04, 0x00, 0x00],
      [0x00, 0x00, 0x00, 0x0E, 0x00, 0x00, 0x00],
      [0x04, 0x04, 0x04, 0x04, 0x00, 0x04, 0x00]]"

text \<open>
  The index computation of \<^verbatim>\<open>render_glyph_5x7\<close>. A \<^verbatim>\<open>char\<close> is a signed byte, promoted
  to \<^verbatim>\<open>int\<close> in every comparison; the character constants are their ASCII codes:
  space 32, \<open>!\<close> 33, \<open>%\<close> 37, \<open>-\<close> 45, \<open>0\<close> 48, \<open>9\<close> 57, \<open>:\<close> 58, \<open>A\<close> 65, \<open>Z\<close> 90.
\<close>

definition glyph_index :: "8 word \<Rightarrow> int" where
  "glyph_index c0 =
     (let c = (if sint c0 < 32 \<or> sint c0 > 90 then 32 else sint c0)
      in if c \<ge> 48 \<and> c \<le> 57 then (c - 48) + 0
         else if c \<ge> 65 \<and> c \<le> 90 then 10 + (c - 65)
         else 10 + 26)"

definition glyph_index_inc :: "8 word \<Rightarrow> int" where
  "glyph_index_inc c0 =
     (let c = (if sint c0 < 32 \<or> sint c0 > 90 then 32 else sint c0)
      in if c \<ge> 48 \<and> c \<le> 57 then (c - 48) + 0
         else if c \<ge> 65 \<and> c \<le> 90 then 10 + (c - 65)
         else if c = 37 then 37
         else if c = 58 then 38
         else if c = 45 then 39
         else if c = 33 then 40
         else 36)"

text \<open>A call of \<^verbatim>\<open>render_rect\<close>: centre, half extents and colour.\<close>

type_synonym rect_call = "real \<times> real \<times> real \<times> real \<times> u32"

text \<open>The two drawing loops of \<^verbatim>\<open>render_glyph_5x7\<close>, as the list of rectangles drawn.\<close>

definition glyph_rects :: "u8 list \<Rightarrow> real \<Rightarrow> real \<Rightarrow> real \<Rightarrow> u32 \<Rightarrow> rect_call list" where
  "glyph_rects glyph cx cy pixel_size color' =
     (let W = 5; H = 7;
          total_w = real W * pixel_size;
          total_h = real H * pixel_size;
          start_x = cx - total_w * 0.5 + pixel_size * 0.5;
          start_y = cy - total_h * 0.5 + pixel_size * 0.5
      in concat (map (\<lambda>ry.
           (let row = glyph ! ry
            in concat (map (\<lambda>rx.
                 if drop_bit (W - 1 - rx) row AND 1 \<noteq> 0
                 then [(start_x + real rx * pixel_size, start_y + real ry * pixel_size,
                        pixel_size * 0.5, pixel_size * 0.5, color')]
                 else []) [0..<W]))) [0..<H]))"

text \<open>Reading the font table outside its rows is the fault \<open>OutOfBounds\<close>.\<close>

definition font_row :: "u8 list list \<Rightarrow> int \<Rightarrow> fault + u8 list" where
  "font_row font idx =
     (if 0 \<le> idx \<and> idx < int (length font) then Inr (font ! nat idx) else Inl OutOfBounds)"

definition render_glyph_5x7 ::
  "RenderState \<Rightarrow> 8 word \<Rightarrow> real \<Rightarrow> real \<Rightarrow> real \<Rightarrow> u32 \<Rightarrow> fault + rect_call list" where
  "render_glyph_5x7 rs c cx cy pixel_size color' =
     (if rs_height rs = 0 \<or> rs_width rs = 0 then Inr []
      else case font_row FONT_5x7 (glyph_index c) of
             Inl e \<Rightarrow> Inl e
           | Inr glyph \<Rightarrow> Inr (glyph_rects glyph cx cy pixel_size color'))"

definition render_glyph_5x7_inc ::
  "RenderState \<Rightarrow> 8 word \<Rightarrow> real \<Rightarrow> real \<Rightarrow> real \<Rightarrow> u32 \<Rightarrow> fault + rect_call list" where
  "render_glyph_5x7_inc rs c cx cy pixel_size color' =
     (if rs_height rs = 0 \<or> rs_width rs = 0 then Inr []
      else case font_row FONT_5x7_inc (glyph_index_inc c) of
             Inl e \<Rightarrow> Inl e
           | Inr glyph \<Rightarrow> Inr (glyph_rects glyph cx cy pixel_size color'))"

text \<open>The characters that have a glyph of their own in each variant.\<close>

definition has_glyph :: "8 word \<Rightarrow> bool" where
  "has_glyph c = ((48 \<le> sint c \<and> sint c \<le> 57) \<or> (65 \<le> sint c \<and> sint c \<le> 90))"

definition has_glyph_inc :: "8 word \<Rightarrow> bool" where
  "has_glyph_inc c = (has_glyph c \<or> sint c \<in> {37, 58, 45, 33})"

section \<open>Input\<close>

datatype Key =
  BUTTON_LEFT_ARROW | BUTTON_UP_ARROW | BUTTON_RIGHT_ARROW | BUTTON_DOWN_ARROW
| BUTTON_LEFT | BUTTON_UP | BUTTON_RIGHT | BUTTON_DOWN
| BUTTON_ENTER | BUTTON_F11 | BUTTON_PAUSE | BUTTON_ESC

text \<open>The last three keys exist in the second variant only.\<close>

record ButtonState =
  is_down :: bool
  changed :: bool

type_synonym Buttons = "Key \<Rightarrow> ButtonState"

definition key_is_changed :: "Buttons \<Rightarrow> Key \<Rightarrow> bool" where
  "key_is_changed buttons k = changed (buttons k)"

definition key_is_down :: "Buttons \<Rightarrow> Key \<Rightarrow> bool" where
  "key_is_down buttons k = is_down (buttons k)"

definition is_pressed :: "Buttons \<Rightarrow> Key \<Rightarrow> bool" where
  "is_pressed buttons k = (key_is_down buttons k \<and> key_is_changed buttons k)"

section \<open>Paddles\<close>

record Vector2 =
  X :: real
  Y :: real

record PlayerController =
  pos :: Vector2
  dp :: real
  ddp_speed :: real
  damping :: real

definition move_up :: "PlayerController \<Rightarrow> real \<Rightarrow> real" where
  "move_up c ddp = ddp - ddp_speed c"

definition move_down :: "PlayerController \<Rightarrow> real \<Rightarrow> real" where
  "move_down c ddp = ddp + ddp_speed c"

text \<open>\<open>pulse_timer\<close> is a field of the second variant only; the first never touches it.\<close>

record Player =
  controller :: PlayerController
  arrow_controls :: bool
  ai_mode :: bool
  pulse_timer :: real
  width :: real
  height :: real
  color :: u32
  score :: u32

definition increment_score :: "Player \<Rightarrow> Player" where
  "increment_score p = p\<lparr>score := score p + 1\<rparr>"

definition handle_input :: "Buttons \<Rightarrow> Player \<Rightarrow> real \<Rightarrow> real" where
  "handle_input buttons p ddp =
     (let ddp1 = (if key_is_down buttons (if arrow_controls p then BUTTON_UP_ARROW else BUTTON_UP)
                  then move_up (controller p) ddp else ddp)
      in if key_is_down buttons (if arrow_controls p then BUTTON_DOWN_ARROW else BUTTON_DOWN)
         then move_down (controller p) ddp1 else ddp1)"

subsection \<open>The AI driver\<close>

text \<open>The enum \<^verbatim>\<open>AIDifficulty\<close> is reached by a cast from \<^verbatim>\<open>i32\<close>, so it stays an integer.\<close>

abbreviation (input) Easy :: int where "Easy \<equiv> 0"
abbreviation (input) Medium :: int where "Medium \<equiv> 1"
abbreviation (input) Hard :: int where "Hard \<equiv> 2"
abbreviation (input) VeryHard :: int where "VeryHard \<equiv> 3"
abbreviation (input) Unbeatable :: int where "Unbeatable \<equiv> 4"

abbreviation (input) TOP :: real where "TOP \<equiv> 50"
abbreviation (input) BOTTOM :: real where "BOTTOM \<equiv> -50"
abbreviation (input) HIGH_VY :: real where "HIGH_VY \<equiv> 100"

text \<open>The fold of \<^verbatim>\<open>predict_ball\<close>: from \<^verbatim>\<open>float span\<close> to \<^verbatim>\<open>float final_y\<close>.\<close>

definition fold_wall :: "real \<Rightarrow> real" where
  "fold_wall proj_y =
     (let span = TOP - BOTTOM;
          shifted = proj_y - BOTTOM;
          cycle0 = fmod shifted (2 * span);
          cycle = (if cycle0 < 0 then cycle0 + 2 * span else cycle0)
      in if cycle \<le> span then BOTTOM + cycle else TOP - (cycle - span))"

definition will_predict :: "Vector2 \<Rightarrow> real \<Rightarrow> bool" where
  "will_predict ball_vel paddle_x =
     (\<bar>Y ball_vel\<bar> > HIGH_VY \<and> \<bar>X ball_vel\<bar> > 0.0001 \<and>
      ((paddle_x \<ge> 0 \<and> X ball_vel > 0) \<or> (paddle_x < 0 \<and> X ball_vel < 0)))"

text \<open>
  \<open>r1\<close> and \<open>r2\<close> are the two values \<^verbatim>\<open>rand()\<close> returns in cases 1 and 2, in call
  order. The result is the new \<open>target_y\<close>.
\<close>

definition predict_ball ::
  "nat \<Rightarrow> nat \<Rightarrow> nat \<Rightarrow> Vector2 \<Rightarrow> Vector2 \<Rightarrow> real \<Rightarrow> real \<Rightarrow> nat \<Rightarrow> real" where
  "predict_ball rand_max r1 r2 ball_vel ball_pos paddle_x target_y level =
     (if will_predict ball_vel paddle_x then
        (let t = (paddle_x - X ball_pos) / X ball_vel in
         if t > 0 then
           (let proj_y = Y ball_pos + Y ball_vel * t;
                final_y = fold_wall proj_y
            in if level = 1 then
                 (let inacurracy = (real r1 / real rand_max) * 12 - 16;
                      final_y1 = final_y + inacurracy;
                      final_y2 = (if r2 mod 15 = 0 then TOP else final_y1)
                  in final_y2 + inacurracy)
               else if level = 2 then
                 (let inacurracy = (real r1 / real rand_max) * 12 - 10;
                      final_y1 = final_y + inacurracy;
                      final_y2 = (if r2 mod 5 = 0 then TOP else final_y1)
                  in final_y2 + inacurracy)
               else if level = 3 then final_y + 10
               else target_y)
         else Y ball_pos)
      else target_y)"

definition smash_ball ::
  "real \<Rightarrow> real \<Rightarrow> real \<Rightarrow> Vector2 \<Rightarrow> PlayerController \<Rightarrow> real \<Rightarrow> real" where
  "smash_ball dist_x target_y paddle_y ball_vel c ddp =
     (if dist_x \<le> 10 then
        (let diff = target_y - paddle_y in
         if \<bar>diff\<bar> < 1 then
           (if Y ball_vel > 0 then move_down c ddp else move_up c ddp)
         else
           (let dir = (if diff > 0 then 1 else -1 :: int)
            in if dir > 0 then move_down c ddp else move_up c ddp))
      else ddp)"

definition follow_ball :: "real \<Rightarrow> real \<Rightarrow> PlayerController \<Rightarrow> real \<Rightarrow> real" where
  "follow_ball target_y paddle_y c ddp =
     (let diff = target_y - paddle_y in
      if diff > 5 then move_down c ddp
      else if diff < -5 then move_up c ddp
      else ddp)"

definition run_ai_mode ::
  "nat \<Rightarrow> nat \<Rightarrow> nat \<Rightarrow> Player \<Rightarrow> Vector2 \<Rightarrow> Vector2 \<Rightarrow> real \<Rightarrow> int \<Rightarrow> real" where
  "run_ai_mode rand_max r1 r2 self ball_pos ball_vel ddp difficulty =
     (if \<not> ((X (pos (controller self)) > 0 \<and> X ball_pos > 0) \<or>
             (X (pos (controller self)) < 0 \<and> X ball_pos < 0))
      then ddp
      else
        (let paddle_x = X (pos (controller self));
             paddle_y = Y (pos (controller self));
             dist_x = \<bar>paddle_x - X ball_pos\<bar>;
             target_y = Y ball_pos;
             c = controller self
         in if difficulty = Easy then
              follow_ball target_y paddle_y c ddp
            else if difficulty = Medium then
              follow_ball target_y paddle_y c
                (smash_ball dist_x target_y paddle_y ball_vel c ddp)
            else if difficulty = Hard then
              (let target_y' = predict_ball rand_max r1 r2 ball_vel ball_pos paddle_x target_y 1
               in follow_ball target_y' paddle_y c
                    (smash_ball dist_x target_y' paddle_y ball_vel c ddp))
            else if difficulty = VeryHard then
              (let target_y' = predict_ball rand_max r1 r2 ball_vel ball_pos paddle_x target_y 2
               in follow_ball target_y' paddle_y c
                    (smash_ball dist_x target_y' paddle_y ball_vel c ddp))
            else if difficulty = Unbeatable then
              (let target_y' = predict_ball rand_max r1 r2 ball_vel ball_pos paddle_x target_y 3
               in follow_ball target_y' paddle_y c
                    (smash_ball dist_x target_y' paddle_y ball_vel c ddp))
            else ddp))"

subsection \<open>Paddle collision and tick\<close>

text \<open>The acceleration the driver of a paddle asks for in one tick, from \<open>ddp = 0\<close>.\<close>

definition driver_ddp ::
  "nat \<Rightarrow> nat \<Rightarrow> nat \<Rightarrow> Buttons \<Rightarrow> Vector2 \<Rightarrow> Vector2 \<Rightarrow> int \<Rightarrow> Player \<Rightarrow> real" where
  "driver_ddp rand_max r1 r2 buttons ball_pos ball_vel difficulty p =
     (if ai_mode p then run_ai_mode rand_max r1 r2 p ball_pos ball_vel 0 difficulty
      else handle_input buttons p 0)"

text \<open>
  The rest of \<^verbatim>\<open>Player::update\<close>, the calls \<^verbatim>\<open>controller.update(dt, ddp)\<close> and
  \<^verbatim>\<open>add_collision()\<close>, over float32 with overflow. Either driver writes nothing but the
  local \<^verbatim>\<open>ddp\<close>, so the tick takes \<open>ddp\<close> as an argument and a statement for every \<open>ddp\<close>
  is one for every driver. The records hold the \<^verbatim>\<open>float\<close> fields of \<^verbatim>\<open>PlayerController\<close>
  and \<^verbatim>\<open>Player\<close>.
\<close>

record Vector2_f =
  Xf :: flt
  Yf :: flt

record PlayerController_f =
  pos_f :: Vector2_f
  dp_f :: flt
  ddp_speed_f :: flt
  damping_f :: flt

record Player_f =
  controller_f :: PlayerController_f
  width_f :: flt
  height_f :: flt

definition update_pos_y :: "flt \<Rightarrow> flt \<Rightarrow> PlayerController_f \<Rightarrow> PlayerController_f" where
  "update_pos_y dt ddp c =
     c\<lparr>pos_f := (pos_f c)\<lparr>Yf :=
          fl_add (fl_add (Yf (pos_f c)) (fl_mul (dp_f c) dt))
                 (fl_mul (fl_mul (fl_mul ddp dt) dt) (Fin 0.5))\<rparr>\<rparr>"

definition update_dp :: "flt \<Rightarrow> flt \<Rightarrow> PlayerController_f \<Rightarrow> PlayerController_f" where
  "update_dp dt ddp c = c\<lparr>dp_f := fl_add (dp_f c) (fl_mul ddp dt)\<rparr>"

definition update_ddp_damping :: "PlayerController_f \<Rightarrow> flt \<Rightarrow> flt" where
  "update_ddp_damping c ddp = fl_sub ddp (fl_mul (dp_f c) (damping_f c))"

definition PlayerController_update :: "flt \<Rightarrow> flt \<Rightarrow> PlayerController_f \<Rightarrow> PlayerController_f" where
  "PlayerController_update dt ddp c =
     (let ddp' = update_ddp_damping c ddp
      in update_dp dt ddp' (update_pos_y dt ddp' c))"

definition Player_add_collision :: "Player_f \<Rightarrow> Player_f" where
  "Player_add_collision p =
     (let p1 = (if fl_gt (fl_add (Yf (pos_f (controller_f p))) (height_f p)) (Fin 50)
                then p\<lparr>controller_f := (controller_f p)
                        \<lparr>pos_f := (pos_f (controller_f p))\<lparr>Yf := fl_sub (Fin 50) (height_f p)\<rparr>,
                         dp_f := fl_mul (dp_f (controller_f p)) (Fin (- 0.5))\<rparr>\<rparr>
                else p)
      in if fl_lt (fl_sub (Yf (pos_f (controller_f p1))) (height_f p1)) (Fin (-50))
         then p1\<lparr>controller_f := (controller_f p1)
                  \<lparr>pos_f := (pos_f (controller_f p1))\<lparr>Yf := fl_add (Fin (-50)) (height_f p1)\<rparr>,
                   dp_f := fl_mul (dp_f (controller_f p1)) (Fin (- 0.5))\<rparr>\<rparr>
         else p1)"

text \<open>The paddle as \<^verbatim>\<open>controller.update\<close> leaves it, before \<^verbatim>\<open>add_collision\<close>.\<close>

definition Player_move :: "flt \<Rightarrow> flt \<Rightarrow> Player_f \<Rightarrow> Player_f" where
  "Player_move dt ddp p = p\<lparr>controller_f := PlayerController_update dt ddp (controller_f p)\<rparr>"

definition Player_update :: "flt \<Rightarrow> flt \<Rightarrow> Player_f \<Rightarrow> Player_f" where
  "Player_update dt ddp p = Player_add_collision (Player_move dt ddp p)"

text \<open>One of the two tests of \<^verbatim>\<open>add_collision\<close> holds of the paddle.\<close>

definition clamp_fires :: "Player_f \<Rightarrow> bool" where
  "clamp_fires q =
     (fl_gt (fl_add (Yf (pos_f (controller_f q))) (height_f q)) (Fin 50) \<or>
      fl_lt (fl_sub (Yf (pos_f (controller_f q))) (height_f q)) (Fin (-50)))"

section \<open>Ball\<close>

text \<open>\<open>player1\<close> and \<open>player2\<close> hold the pointees of the two \<^verbatim>\<open>Player *\<close> fields.\<close>

record BallController =
  bpos :: Vector2
  player1 :: "Player option"
  player2 :: "Player option"
  bvel :: Vector2
  bsize :: real
  scored :: bool
  winner :: int

record Ball =
  ball_controller :: BallController
  ball_color :: u32

definition Ball_reset :: "Ball \<Rightarrow> Ball" where
  "Ball_reset b =
     b\<lparr>ball_controller := (ball_controller b)
        \<lparr>bpos := \<lparr>X = 0, Y = 0\<rparr>,
         bvel := \<lparr>X = - X (bvel (ball_controller b)), Y = 0\<rparr>,
         scored := False,
         winner := 0\<rparr>\<rparr>"

subsection \<open>Ball collision, first variant\<close>

text \<open>The two vertical wall tests that open \<^verbatim>\<open>BallController::add_collision\<close>.\<close>

definition wall_bounce :: "BallController \<Rightarrow> BallController" where
  "wall_bounce bc =
     (let bc1 = (if Y (bpos bc) + bsize bc > 50
                 then bc\<lparr>bpos := (bpos bc)\<lparr>Y := 50 - bsize bc\<rparr>,
                         bvel := (bvel bc)\<lparr>Y := - Y (bvel bc)\<rparr>\<rparr>
                 else bc)
      in if Y (bpos bc1) - bsize bc1 < -50
         then bc1\<lparr>bpos := (bpos bc1)\<lparr>Y := -50 + bsize bc1\<rparr>,
                  bvel := (bvel bc1)\<lparr>Y := - Y (bvel bc1)\<rparr>\<rparr>
         else bc1)"

definition goal_right :: "BallController \<Rightarrow> bool" where
  "goal_right bc = (X (bpos bc) + bsize bc > 80)"

definition goal_left :: "BallController \<Rightarrow> bool" where
  "goal_left bc = (X (bpos bc) - bsize bc < -80)"

text \<open>The bodies of the two goal branches; \<^verbatim>\<open>player1->increment_score()\<close> reads a pointer.\<close>

definition score_right :: "BallController \<Rightarrow> fault + BallController" where
  "score_right bc =
     (case player1 bc of
        None \<Rightarrow> Inl NullDeref
      | Some p \<Rightarrow> Inr (bc\<lparr>scored := True, winner := 1,
                          bpos := (bpos bc)\<lparr>X := 80 + bsize bc\<rparr>,
                          player1 := Some (increment_score p)\<rparr>))"

definition score_left :: "BallController \<Rightarrow> fault + BallController" where
  "score_left bc =
     (case player2 bc of
        None \<Rightarrow> Inl NullDeref
      | Some p \<Rightarrow> Inr (bc\<lparr>scored := True, winner := 2,
                          bpos := (bpos bc)\<lparr>X := -80 - bsize bc\<rparr>,
                          player2 := Some (increment_score p)\<rparr>))"

definition overlaps :: "Player \<Rightarrow> BallController \<Rightarrow> bool" where
  "overlaps player bc =
     (let px = X (pos (controller player)); py = Y (pos (controller player));
          overlap_x = (\<bar>X (bpos bc) - px\<bar> \<le> width player + bsize bc);
          overlap_y = (\<bar>Y (bpos bc) - py\<bar> \<le> height player + bsize bc)
      in overlap_x \<and> overlap_y)"

text \<open>The body of \<^verbatim>\<open>if (overlap_x && overlap_y)\<close> in the first variant.\<close>

definition paddle_bounce :: "Player \<Rightarrow> BallController \<Rightarrow> BallController" where
  "paddle_bounce player bc =
     (let px = X (pos (controller player)); py = Y (pos (controller player));
          bc1 = bc\<lparr>bpos := (bpos bc)\<lparr>X := (if X (bvel bc) < 0
                                              then px + width player + bsize bc
                                              else px - width player - bsize bc)\<rparr>\<rparr>;
          bc2 = bc1\<lparr>bvel := (bvel bc1)\<lparr>X := - X (bvel bc1) + 0.0001\<rparr>\<rparr>;
          hit = (Y (bpos bc2) - py) / height player;
          hit_influence = hit * 38;
          paddle_influence = dp (controller player) * 0.20
      in bc2\<lparr>bvel := (bvel bc2)\<lparr>Y := Y (bvel bc2) + (hit_influence + paddle_influence)\<rparr>\<rparr>)"

definition BallController_add_collision :: "Player \<Rightarrow> BallController \<Rightarrow> fault + BallController" where
  "BallController_add_collision player bc0 =
     (let bc = wall_bounce bc0
      in if goal_right bc then score_right bc
         else if goal_left bc then score_left bc
         else if overlaps player bc then Inr (paddle_bounce player bc)
         else Inr bc)"

definition update_physics :: "real \<Rightarrow> BallController \<Rightarrow> BallController" where
  "update_physics dt bc =
     bc\<lparr>bpos := \<lparr>X = X (bpos bc) + X (bvel bc) * dt, Y = Y (bpos bc) + Y (bvel bc) * dt\<rparr>\<rparr>"

definition BallController_update :: "real \<Rightarrow> BallController \<Rightarrow> fault + BallController" where
  "BallController_update dt bc =
     (if scored bc then Inr bc
      else
        (let bc1 = update_physics dt bc
         in case (case player1 bc1 of
                    Some p \<Rightarrow> BallController_add_collision p bc1
                  | None \<Rightarrow> Inr bc1) of
              Inl e \<Rightarrow> Inl e
            | Inr bc2 \<Rightarrow>
                if scored bc2 then Inr bc2
                else (case player2 bc2 of
                        Some p \<Rightarrow> BallController_add_collision p bc2
                      | None \<Rightarrow> Inr bc2)))"

text \<open>The overlap test of \<^verbatim>\<open>add_collision\<close> is reached and fires.\<close>

definition paddle_hit :: "Player \<Rightarrow> BallController \<Rightarrow> bool" where
  "paddle_hit player bc0 =
     (let bc = wall_bounce bc0
      in \<not> goal_right bc \<and> \<not> goal_left bc \<and> overlaps player bc)"

subsection \<open>Ball collision, second variant\<close>

text \<open>
  The second variant passes the paddle as a pointer, one of the ball's own two, and
  writes \<open>pulse_timer\<close> through it; \<open>which_player\<close> says which pointer was passed.
\<close>

datatype which_player = First | Second

definition pointee :: "which_player \<Rightarrow> BallController \<Rightarrow> Player option" where
  "pointee w bc = (case w of First \<Rightarrow> player1 bc | Second \<Rightarrow> player2 bc)"

definition set_pointee :: "which_player \<Rightarrow> Player \<Rightarrow> BallController \<Rightarrow> BallController" where
  "set_pointee w p bc = (case w of First \<Rightarrow> bc\<lparr>player1 := Some p\<rparr> | Second \<Rightarrow> bc\<lparr>player2 := Some p\<rparr>)"

definition paddle_bounce_inc :: "which_player \<Rightarrow> Player \<Rightarrow> BallController \<Rightarrow> BallController" where
  "paddle_bounce_inc w player bc =
     (let px = X (pos (controller player)); py = Y (pos (controller player));
          bc1 = bc\<lparr>bpos := (bpos bc)\<lparr>X := (if X (bvel bc) < 0
                                              then px + width player + bsize bc
                                              else px - width player - bsize bc)\<rparr>\<rparr>;
          bc1' = set_pointee w (player\<lparr>pulse_timer := 0.5\<rparr>) bc1;
          bc2 = bc1'\<lparr>bvel := (bvel bc1')\<lparr>X := - X (bvel bc1') + 0.0001\<rparr>\<rparr>;
          hit = (Y (bpos bc2) - py) / height player;
          hit_influence = hit * 38;
          paddle_influence = dp (controller player) * 0.20
      in bc2\<lparr>bvel := (bvel bc2)
                \<lparr>Y := Y (bvel bc2) + (hit_influence + paddle_influence + 0.0001)\<rparr>\<rparr>)"

definition BallController_add_collision_inc ::
  "which_player \<Rightarrow> BallController \<Rightarrow> fault + BallController" where
  "BallController_add_collision_inc w bc0 =
     (case pointee w bc0 of
        None \<Rightarrow> Inr bc0
      | Some player \<Rightarrow>
          (let bc = wall_bounce bc0
           in if goal_right bc then score_right bc
              else if goal_left bc then score_left bc
              else if overlaps player bc then Inr (paddle_bounce_inc w player bc)
              else Inr bc))"

definition BallController_update_inc :: "real \<Rightarrow> BallController \<Rightarrow> fault + BallController" where
  "BallController_update_inc dt bc =
     (if scored bc then Inr bc
      else
        (let bc1 = update_physics dt bc
         in case (if player1 bc1 \<noteq> None
                  then BallController_add_collision_inc First bc1
                  else Inr bc1) of
              Inl e \<Rightarrow> Inl e
            | Inr bc2 \<Rightarrow>
                if scored bc2 then Inr bc2
                else if player2 bc2 \<noteq> None
                     then BallController_add_collision_inc Second bc2
                     else Inr bc2))"

section \<open>Particle burst\<close>

record Particle =
  ppos :: Vector2
  pvel :: Vector2
  life :: real

text \<open>\<open>renderer\<close> says whether the renderer pointer is non-null.\<close>

record ParticleBurst =
  particles :: "Particle list"
  active :: bool
  renderer :: bool
  count :: int
  lifetime :: real
  burst_pos :: Vector2
  speed_min :: real
  speed_max :: real

text \<open>
  The burst as \<^verbatim>\<open>Window\<close> constructs it, from a renderer; \<open>pos\<close>, which C++ leaves
  uninitialised, is the origin here.
\<close>

definition ParticleBurst_ctor :: ParticleBurst where
  "ParticleBurst_ctor =
     \<lparr>particles = [], active = False, renderer = True, count = 80, lifetime = 1,
      burst_pos = \<lparr>X = 0, Y = 0\<rparr>, speed_min = 30, speed_max = 80\<rparr>"

text \<open>
  The body of the loop of \<^verbatim>\<open>start\<close> at iteration \<open>i\<close>; \<open>rnd k\<close> is the value of the
  \<open>k\<close>-th call of \<^verbatim>\<open>rand()\<close> made by this \<^verbatim>\<open>start\<close>, three calls per particle.
\<close>

definition spawn_particle :: "nat \<Rightarrow> (nat \<Rightarrow> nat) \<Rightarrow> real \<Rightarrow> real \<Rightarrow> ParticleBurst \<Rightarrow> nat \<Rightarrow> Particle" where
  "spawn_particle rand_max rnd x y pb i =
     (let angle = (real (rnd (3 * i)) / real rand_max) * 2 * 3.14159265;
          speed = speed_min pb + (real (rnd (3 * i + 1)) / real rand_max) * (speed_max pb - speed_min pb)
      in \<lparr>ppos = \<lparr>X = x, Y = y\<rparr>,
          pvel = \<lparr>X = cos angle * speed, Y = sin angle * speed\<rparr>,
          life = lifetime pb * (0.5 + (real (rnd (3 * i + 2)) / real rand_max) * 0.5)\<rparr>)"

definition ParticleBurst_start ::
  "nat \<Rightarrow> (nat \<Rightarrow> nat) \<Rightarrow> real \<Rightarrow> real \<Rightarrow> ParticleBurst \<Rightarrow> ParticleBurst" where
  "ParticleBurst_start rand_max rnd x y pb =
     (if \<not> renderer pb then pb
      else pb\<lparr>burst_pos := \<lparr>X = x, Y = y\<rparr>,
              active := True,
              particles := map (spawn_particle rand_max rnd x y pb) [0..<nat (count pb)]\<rparr>)"

definition integrate_particle :: "real \<Rightarrow> Particle \<Rightarrow> Particle" where
  "integrate_particle dt p =
     p\<lparr>ppos := \<lparr>X = X (ppos p) + X (pvel p) * dt, Y = Y (ppos p) + Y (pvel p) * dt\<rparr>,
       life := life p - dt\<rparr>"

definition ParticleBurst_update :: "real \<Rightarrow> ParticleBurst \<Rightarrow> ParticleBurst" where
  "ParticleBurst_update dt pb =
     (if \<not> active pb then pb
      else
        (let ps = filter (\<lambda>p. \<not> life p \<le> 0) (map (integrate_particle dt) (particles pb))
         in pb\<lparr>particles := ps, active := (if ps = [] then False else active pb)\<rparr>))"

definition finished :: "ParticleBurst \<Rightarrow> bool" where
  "finished pb = (\<not> active pb)"

text \<open>The celebration: one \<^verbatim>\<open>update\<close> per frame, with the frame's \<open>dt\<close>.\<close>

fun run_updates :: "real list \<Rightarrow> ParticleBurst \<Rightarrow> ParticleBurst" where
  "run_updates [] pb = pb"
| "run_updates (dt # dts) pb = run_updates dts (ParticleBurst_update dt pb)"

text \<open>
  What \<^verbatim>\<open>Window::mainloop\<close> does to its \<^verbatim>\<open>particle_burst\<close>. In the first variant it
  is constructed, started when the ball has scored and updated during the celebration.
\<close>

inductive reachable_burst :: "nat \<Rightarrow> ParticleBurst \<Rightarrow> bool" for rand_max :: nat where
  constructed: "reachable_burst rand_max ParticleBurst_ctor"
| started: "reachable_burst rand_max pb \<Longrightarrow>
            reachable_burst rand_max (ParticleBurst_start rand_max rnd x y pb)"
| updated: "reachable_burst rand_max pb \<Longrightarrow>
            reachable_burst rand_max (ParticleBurst_update dt pb)"

text \<open>
  The second variant also writes \<^verbatim>\<open>particle_burst.active = false\<close>, in the Restart and
  Main Menu branches of the pause menu. Escape toggles \<^verbatim>\<open>confirm_modal\<close> in every frame of
  \<^verbatim>\<open>MENU_PLAYING\<close>, during a celebration too, and with it set Enter runs the branch
  \<^verbatim>\<open>paused_index\<close> selects; the index is a static that keeps the row chosen at an earlier
  visit of the pause menu.
\<close>

inductive reachable_burst_inc :: "nat \<Rightarrow> ParticleBurst \<Rightarrow> bool" for rand_max :: nat where
  constructed_inc: "reachable_burst_inc rand_max ParticleBurst_ctor"
| started_inc: "reachable_burst_inc rand_max pb \<Longrightarrow>
            reachable_burst_inc rand_max (ParticleBurst_start rand_max rnd x y pb)"
| updated_inc: "reachable_burst_inc rand_max pb \<Longrightarrow>
            reachable_burst_inc rand_max (ParticleBurst_update dt pb)"
| deactivated_inc: "reachable_burst_inc rand_max pb \<Longrightarrow>
            reachable_burst_inc rand_max (pb\<lparr>active := False\<rparr>)"

text \<open>
  During a run of updates every surviving particle is one of the particles the run
  began with, aged by the time \<open>t\<close> accumulated so far, and still has life left.
\<close>

definition aged :: "Particle list \<Rightarrow> real \<Rightarrow> ParticleBurst \<Rightarrow> bool" where
  "aged ps0 t pb =
     ((active pb \<longleftrightarrow> particles pb \<noteq> []) \<and>
      (\<forall>p \<in> set (particles pb). 0 < life p \<and> (\<exists>q \<in> set ps0. life p = life q - t)))"

text \<open>A \<^verbatim>\<open>rand()\<close> that returns the same value at every call.\<close>

definition constant_rand :: "nat \<Rightarrow> nat \<Rightarrow> nat" where
  "constant_rand v k = v"

section \<open>Settings menu\<close>

text \<open>
  The function-local statics of the \<^verbatim>\<open>MENU_SETTINGS\<close> branch (\<^verbatim>\<open>_ball_speed\<close> and so on;
  an Isabelle name cannot start with an underscore).
\<close>

record Settings =
  settings_index :: int
  st_ball_speed :: real
  st_paddle_speed :: real
  st_paddle_damping :: real
  st_ai_difficulty :: int

definition Settings_initial :: Settings where
  "Settings_initial =
     \<lparr>settings_index = 0, st_ball_speed = 1.0, st_paddle_speed = 1.0,
      st_paddle_damping = 1.4, st_ai_difficulty = 1\<rparr>"

text \<open>The Up and Down handling, with \<open>n\<close> the number of rows.\<close>

definition move_selection :: "Buttons \<Rightarrow> int \<Rightarrow> int \<Rightarrow> int" where
  "move_selection buttons n idx =
     (let i1 = (if is_pressed buttons BUTTON_UP_ARROW \<or> is_pressed buttons BUTTON_UP
                then (let i = idx - 1 in if i < 0 then n - 1 else i)
                else idx)
      in if is_pressed buttons BUTTON_DOWN_ARROW \<or> is_pressed buttons BUTTON_DOWN
         then (let i = i1 + 1 in if i \<ge> n then 0 else i)
         else i1)"

text \<open>
  One frame of the \<^verbatim>\<open>MENU_SETTINGS\<close> branch of the first variant, as far as the statics
  go: selection, then the body of the Left test (\<open>settings_left\<close>), then the body of the
  Right test (\<open>settings_right\<close>). Enter on the last row only changes \<^verbatim>\<open>menu_state\<close>; the
  statics keep their values until the menu is entered again.
\<close>

definition settings_left :: "Settings \<Rightarrow> Settings" where
  "settings_left st =
     (if settings_index st = 0 then
        st\<lparr>st_ball_speed := max 0.5 (st_ball_speed st - 0.1)\<rparr>
      else if settings_index st = 1 then
        st\<lparr>st_paddle_speed := max 0.5 (st_paddle_speed st - 0.1)\<rparr>
      else if settings_index st = 2 then
        st\<lparr>st_paddle_damping := max 0.8 (st_paddle_damping st - 0.1)\<rparr>
      else if settings_index st = 3 then
        st\<lparr>st_ai_difficulty := max 0 (st_ai_difficulty st - 1)\<rparr>
      else st)"

definition settings_right :: "Settings \<Rightarrow> Settings" where
  "settings_right st =
     (if settings_index st = 0 then
        st\<lparr>st_ball_speed := min 3.0 (st_ball_speed st + 0.1)\<rparr>
      else if settings_index st = 1 then
        st\<lparr>st_paddle_speed := min 3.0 (st_paddle_speed st + 0.1)\<rparr>
      else if settings_index st = 2 then
        st\<lparr>st_paddle_damping := min 2.0 (st_paddle_damping st + 0.1)\<rparr>
      else if settings_index st = 3 then
        st\<lparr>st_ai_difficulty := min 4 (st_ai_difficulty st + 1)\<rparr>
      else st)"

definition settings_frame :: "Buttons \<Rightarrow> Settings \<Rightarrow> Settings" where
  "settings_frame buttons st =
     (let st1 = st\<lparr>settings_index := move_selection buttons 5 (settings_index st)\<rparr>;
          st2 = (if is_pressed buttons BUTTON_LEFT_ARROW then settings_left st1 else st1)
      in if is_pressed buttons BUTTON_RIGHT_ARROW then settings_right st2 else st2)"

fun settings_run :: "Buttons list \<Rightarrow> Settings \<Rightarrow> Settings" where
  "settings_run [] st = st"
| "settings_run (b # bs) st = settings_run bs (settings_frame b st)"

subsection \<open>Second variant\<close>

text \<open>
  The values the second variant reads from \<^verbatim>\<open>game_config\<close> and the \<^verbatim>\<open>audio\<close> globals
  when the menu is first entered. \<^verbatim>\<open>Config::load_from_file\<close> takes them from the JSON
  file as they are (rounded to one decimal); \<open>Config_default\<close> holds the member
  initialisers, used when there is no file.
\<close>

record Config =
  cfg_paddle_speed :: real
  cfg_paddle_damping :: real
  cfg_ball_speed :: real
  cfg_game_duration_secs :: int
  cfg_ai_difficulty :: int
  cfg_music_enabled :: bool
  cfg_music_volume :: real
  cfg_sfx_volume :: real

definition Config_default :: Config where
  "Config_default =
     \<lparr>cfg_paddle_speed = 1.0, cfg_paddle_damping = 1.0, cfg_ball_speed = 1.4,
      cfg_game_duration_secs = 30, cfg_ai_difficulty = 1,
      cfg_music_enabled = False, cfg_music_volume = 1.0, cfg_sfx_volume = 1.0\<rparr>"

record Settings_inc = Settings +
  st_game_duration_secs :: int
  music_enabled :: bool
  music_volume :: real
  sfx_volume :: real

definition Settings_initial_inc :: "Config \<Rightarrow> Settings_inc" where
  "Settings_initial_inc cfg =
     \<lparr>settings_index = 0, st_ball_speed = cfg_ball_speed cfg,
      st_paddle_speed = cfg_paddle_speed cfg, st_paddle_damping = cfg_paddle_damping cfg,
      st_ai_difficulty = cfg_ai_difficulty cfg,
      st_game_duration_secs = cfg_game_duration_secs cfg,
      music_enabled = cfg_music_enabled cfg, music_volume = cfg_music_volume cfg,
      sfx_volume = cfg_sfx_volume cfg\<rparr>"

text \<open>
  One frame of the \<^verbatim>\<open>MENU_SETTINGS\<close> branch of the second variant: nine rows;
  \<^verbatim>\<open>set_music_volume\<close> and \<^verbatim>\<open>set_sfx_volume\<close> round once more.
\<close>

definition settings_left_inc :: "Settings_inc \<Rightarrow> Settings_inc" where
  "settings_left_inc st =
     (if settings_index st = 0 then
        st\<lparr>st_ball_speed := max 0.5 (round_to (st_ball_speed st - 0.1) 1)\<rparr>
      else if settings_index st = 1 then
        st\<lparr>st_paddle_speed := max 0.5 (round_to (st_paddle_speed st - 0.1) 1)\<rparr>
      else if settings_index st = 2 then
        st\<lparr>st_paddle_damping := max 0.8 (round_to (st_paddle_damping st - 0.1) 1)\<rparr>
      else if settings_index st = 3 then
        st\<lparr>st_ai_difficulty := max 0 (st_ai_difficulty st - 1)\<rparr>
      else if settings_index st = 4 then
        st\<lparr>music_enabled := False\<rparr>
      else if settings_index st = 5 then
        st\<lparr>music_volume := round_to (max 0.0 (round_to (music_volume st - 0.1) 1)) 1\<rparr>
      else if settings_index st = 6 then
        st\<lparr>sfx_volume := round_to (max 0.0 (round_to (sfx_volume st - 0.1) 1)) 1\<rparr>
      else if settings_index st = 7 then
        st\<lparr>st_game_duration_secs := max 5 (st_game_duration_secs st - 1)\<rparr>
      else st)"

definition settings_right_inc :: "Settings_inc \<Rightarrow> Settings_inc" where
  "settings_right_inc st =
     (if settings_index st = 0 then
        st\<lparr>st_ball_speed := min 3.0 (round_to (st_ball_speed st + 0.1) 1)\<rparr>
      else if settings_index st = 1 then
        st\<lparr>st_paddle_speed := min 3.0 (round_to (st_paddle_speed st + 0.1) 1)\<rparr>
      else if settings_index st = 2 then
        st\<lparr>st_paddle_damping := min 2.0 (round_to (st_paddle_damping st + 0.1) 1)\<rparr>
      else if settings_index st = 3 then
        st\<lparr>st_ai_difficulty := min 4 (st_ai_difficulty st + 1)\<rparr>
      else if settings_index st = 4 then
        st\<lparr>music_enabled := True\<rparr>
      else if settings_index st = 5 then
        st\<lparr>music_volume := round_to (min 1.0 (round_to (music_volume st + 0.1) 1)) 1\<rparr>
      else if settings_index st = 6 then
        st\<lparr>sfx_volume := round_to (min 1.0 (round_to (sfx_volume st + 0.1) 1)) 1\<rparr>
      else if settings_index st = 7 then
        st\<lparr>st_game_duration_secs := min 600 (st_game_duration_secs st + 1)\<rparr>
      else st)"

definition settings_frame_inc :: "Buttons \<Rightarrow> Settings_inc \<Rightarrow> Settings_inc" where
  "settings_frame_inc buttons st =
     (let st1 = st\<lparr>settings_index := move_selection buttons 9 (settings_index st)\<rparr>;
          st2 = (if is_pressed buttons BUTTON_LEFT_ARROW then settings_left_inc st1 else st1)
      in if is_pressed buttons BUTTON_RIGHT_ARROW then settings_right_inc st2 else st2)"

fun settings_run_inc :: "Buttons list \<Rightarrow> Settings_inc \<Rightarrow> Settings_inc" where
  "settings_run_inc [] st = st"
| "settings_run_inc (b # bs) st = settings_run_inc bs (settings_frame_inc b st)"

text \<open>The ranges of C7, for the statics of either variant.\<close>

definition settings_in_range :: "'a Settings_scheme \<Rightarrow> bool" where
  "settings_in_range st =
     (0.5 \<le> st_ball_speed st \<and> st_ball_speed st \<le> 3.0 \<and>
      0 \<le> st_ai_difficulty st \<and> st_ai_difficulty st \<le> 4)"

text \<open>The buttons of a frame in which exactly the key \<open>k\<close> went down.\<close>

definition press :: "Key \<Rightarrow> Buttons" where
  "press k = (\<lambda>k'. \<lparr>is_down = (k' = k), changed = (k' = k)\<rparr>)"

section \<open>Construction and match start\<close>

text \<open>
  The constructor of \<^verbatim>\<open>Player\<close> sets \<open>arrow_controls\<close>, \<open>ai_mode\<close> and \<open>score\<close>; the other
  fields, which C++ leaves uninitialised, are zero here, and \<^verbatim>\<open>Player::init\<close> (first
  variant) overwrites all of them but \<open>pulse_timer\<close>.
\<close>

definition Player_ctor :: "bool \<Rightarrow> Player" where
  "Player_ctor arrow_controls' =
     \<lparr>controller = \<lparr>pos = \<lparr>X = 0, Y = 0\<rparr>, dp = 0, ddp_speed = 0, damping = 0\<rparr>,
      arrow_controls = arrow_controls', ai_mode = True, pulse_timer = 0,
      width = 0, height = 0, color = 0, score = 0\<rparr>"

definition PlayerController_init :: "real \<Rightarrow> real \<Rightarrow> PlayerController \<Rightarrow> PlayerController" where
  "PlayerController_init x damping' c =
     c\<lparr>pos := \<lparr>X = x, Y = 0\<rparr>, dp := 0, ddp_speed := 1400, damping := damping'\<rparr>"

definition Player_init :: "real \<Rightarrow> bool \<Rightarrow> real \<Rightarrow> real \<Rightarrow> Player \<Rightarrow> Player" where
  "Player_init x ai_mode' speed damping' p =
     p\<lparr>controller := (PlayerController_init x damping' (controller p))\<lparr>ddp_speed := speed\<rparr>,
       ai_mode := ai_mode', width := 2, height := 12,
       color := (if arrow_controls p then 0x004DABF7 else 0x00FF6B6B)\<rparr>"

definition BallController_ctor :: BallController where
  "BallController_ctor =
     \<lparr>bpos = \<lparr>X = 0, Y = 0\<rparr>, player1 = None, player2 = None,
      bvel = \<lparr>X = 0, Y = 0\<rparr>, bsize = 1.2, scored = False, winner = 0\<rparr>"

definition BallController_init ::
  "Player option \<Rightarrow> Player option \<Rightarrow> BallController \<Rightarrow> BallController" where
  "BallController_init p1 p2 bc =
     bc\<lparr>bpos := \<lparr>X = 0, Y = 0\<rparr>, bvel := \<lparr>X = 95, Y = 0\<rparr>, bsize := 1.2,
        player1 := p1, player2 := p2, scored := False, winner := 0\<rparr>"

text \<open>
  The paddles and the ball as \<^verbatim>\<open>Window::mainloop\<close> of the first variant sets them up
  for a match against the AI with the default settings (paddle speed 1600, damping 11,
  ball speed 95).
\<close>

definition left_paddle :: Player where
  "left_paddle = (Player_init (-70) False 1600 11 (Player_ctor False))\<lparr>ai_mode := False, score := 0\<rparr>"

definition right_paddle :: Player where
  "right_paddle = (Player_init 70 True 1600 11 (Player_ctor True))\<lparr>ai_mode := True, score := 0\<rparr>"

definition served_ball :: BallController where
  "served_ball =
     (BallController_init (Some left_paddle) (Some right_paddle) BallController_ctor)
       \<lparr>bvel := \<lparr>X = 95, Y = 0\<rparr>\<rparr>"

text \<open>
  The same for a match between friends, which differs in \<^verbatim>\<open>player2.ai_mode\<close> only; with
  no key held neither paddle moves.
\<close>

definition friend_ball :: BallController where
  "friend_ball = served_ball\<lparr>player2 := Some (right_paddle\<lparr>ai_mode := False\<rparr>)\<rparr>"

text \<open>
  The float fields of the left paddle of such a match, at height \<open>y\<close> with velocity \<open>v\<close>.
\<close>

definition keyboard_paddle :: "real \<Rightarrow> real \<Rightarrow> Player_f" where
  "keyboard_paddle y v =
     \<lparr>controller_f = \<lparr>pos_f = \<lparr>Xf = Fin (-70), Yf = Fin y\<rparr>, dp_f = Fin v,
                       ddp_speed_f = Fin 1600, damping_f = Fin 11\<rparr>,
      width_f = Fin 2, height_f = Fin 12\<rparr>"

section \<open>Paddle confinement\<close>

lemmas match_start_defs = left_paddle_def right_paddle_def served_ball_def Player_init_def
  Player_ctor_def PlayerController_init_def BallController_init_def BallController_ctor_def
  friend_ball_def

lemmas tick_defs = Player_update_def Player_move_def Player_add_collision_def
  PlayerController_update_def update_ddp_damping_def update_pos_y_def update_dp_def
  keyboard_paddle_def fl_sub_def fl_lt_def fl_def overflow_threshold_def inf_of_sign_def
  clamp_fires_def

lemma add_collision_confines:
  assumes h: "height_f q = Fin 12" and n: "Yf (pos_f (controller_f q)) \<noteq> NaN"
  shows "(\<exists>y. Yf (pos_f (controller_f (Player_add_collision q))) = Fin y \<and> -50 + 12 \<le> y \<and> y \<le> 50 - 12) \<and>
         height_f (Player_add_collision q) = Fin 12 \<and>
         (clamp_fires q \<longrightarrow>
            dp_f (controller_f (Player_add_collision q)) = fl_mul (dp_f (controller_f q)) (Fin (- 0.5))) \<and>
         (\<not> clamp_fires q \<longrightarrow> Player_add_collision q = q)"
proof (cases "Yf (pos_f (controller_f q))")
  case (Fin r)
  then show ?thesis
    using h
    by (auto simp: Player_add_collision_def clamp_fires_def fl_sub_def fl_lt_def fl_def
        overflow_threshold_def Let_def)
next
  case PInf
  then show ?thesis
    using h
    by (simp add: Player_add_collision_def clamp_fires_def fl_sub_def fl_lt_def fl_def
        overflow_threshold_def Let_def)
next
  case NInf
  then show ?thesis
    using h
    by (simp add: Player_add_collision_def clamp_fires_def fl_sub_def fl_lt_def fl_def
        overflow_threshold_def Let_def)
next
  case NaN
  with n show ?thesis by simp
qed

text \<open>
  C1 as stated fails: the keyboard paddle at \<open>y = 0\<close> moving at 100 units per second,
  no key held, ticked with \<open>dt = 1e37\<close>. The damping makes \<open>ddp = -1100\<close>; \<open>dp * dt\<close>
  overflows to \<open>+inf\<close> and \<open>ddp * dt * dt * 0.5\<close> to \<open>-inf\<close>, their sum is NaN, both tests
  of \<^verbatim>\<open>add_collision\<close> are false on NaN, and \<open>pos.y\<close> is left NaN.
\<close>

theorem paddle_nan_counterexample:
  "Yf (pos_f (controller_f (Player_move (Fin (10 ^ 37)) (Fin 0) (keyboard_paddle 0 100)))) = NaN \<and>
   Yf (pos_f (controller_f (Player_update (Fin (10 ^ 37)) (Fin 0) (keyboard_paddle 0 100)))) = NaN"
  by (simp add: tick_defs Let_def)

text \<open>
  C1, amended. For a paddle of half-height 12, whatever its state, the acceleration its
  driver asked for and \<open>dt\<close>: if the position the controller tick computes is not NaN,
  then after \<^verbatim>\<open>Player::update\<close> \<open>pos.y\<close> is a finite number in \<open>[-50 + 12, 50 - 12]\<close>.
  Whenever a clamp fires \<open>dp\<close> becomes \<open>-0.5\<close> times the value the tick gave it;
  otherwise \<^verbatim>\<open>add_collision\<close> leaves the paddle as it is.
\<close>

theorem paddle_stays_in_field:
  assumes "height_f p = Fin 12"
    and "Yf (pos_f (controller_f (Player_move dt ddp p))) \<noteq> NaN"
  shows "(\<exists>y. Yf (pos_f (controller_f (Player_update dt ddp p))) = Fin y \<and>
              -50 + 12 \<le> y \<and> y \<le> 50 - 12) \<and>
         height_f (Player_update dt ddp p) = Fin 12 \<and>
         (clamp_fires (Player_move dt ddp p) \<longrightarrow>
            dp_f (controller_f (Player_update dt ddp p)) =
              fl_mul (dp_f (controller_f (Player_move dt ddp p))) (Fin (- 0.5))) \<and>
         (\<not> clamp_fires (Player_move dt ddp p) \<longrightarrow> Player_update dt ddp p = Player_move dt ddp p)"
proof -
  have "height_f (Player_move dt ddp p) = Fin 12"
    using assms(1) by (simp add: Player_move_def)
  from add_collision_confines [OF this assms(2)] show ?thesis
    by (simp add: Player_update_def)
qed

text \<open>
  Witness: the keyboard paddle at \<open>y = 37.9\<close> moving down at 100 units per second, no
  key held, \<open>dt = 0.016\<close>: the tick carries it to \<open>39.3592\<close>, the clamp puts it at 38 and
  the velocity \<open>82.4\<close> becomes \<open>-41.2\<close>.
\<close>

theorem paddle_stays_in_field_witness:
  "height_f (keyboard_paddle 37.9 100) = Fin 12 \<and>
   Yf (pos_f (controller_f (Player_move (Fin 0.016) (Fin 0) (keyboard_paddle 37.9 100)))) = Fin 39.3592 \<and>
   clamp_fires (Player_move (Fin 0.016) (Fin 0) (keyboard_paddle 37.9 100)) \<and>
   Yf (pos_f (controller_f (Player_update (Fin 0.016) (Fin 0) (keyboard_paddle 37.9 100)))) = Fin 38 \<and>
   dp_f (controller_f (Player_update (Fin 0.016) (Fin 0) (keyboard_paddle 37.9 100))) = Fin (-41.2)"
proof -
  have h: "height_f (keyboard_paddle 37.9 100) = Fin 12"
    by (simp add: keyboard_paddle_def)
  have m: "Yf (pos_f (controller_f (Player_move (Fin 0.016) (Fin 0) (keyboard_paddle 37.9 100)))) = Fin 39.3592"
    "dp_f (controller_f (Player_move (Fin 0.016) (Fin 0) (keyboard_paddle 37.9 100))) = Fin 82.4"
    "height_f (Player_move (Fin 0.016) (Fin 0) (keyboard_paddle 37.9 100)) = Fin 12"
    by (simp_all add: Player_move_def PlayerController_update_def update_ddp_damping_def
        update_pos_y_def update_dp_def keyboard_paddle_def fl_sub_def fl_def
        overflow_threshold_def Let_def)
  have n: "Yf (pos_f (controller_f (Player_move (Fin 0.016) (Fin 0) (keyboard_paddle 37.9 100)))) \<noteq> NaN"
    unfolding m by simp
  have c: "clamp_fires (Player_move (Fin 0.016) (Fin 0) (keyboard_paddle 37.9 100))"
    by (simp add: tick_defs Let_def)
  from paddle_stays_in_field [OF h n]
  have d: "dp_f (controller_f (Player_update (Fin 0.016) (Fin 0) (keyboard_paddle 37.9 100))) =
      fl_mul (dp_f (controller_f (Player_move (Fin 0.016) (Fin 0) (keyboard_paddle 37.9 100)))) (Fin (- 0.5))"
    using c by blast
  have d': "dp_f (controller_f (Player_update (Fin 0.016) (Fin 0) (keyboard_paddle 37.9 100))) = Fin (-41.2)"
    unfolding d m by (simp add: fl_def overflow_threshold_def)
  have y: "Yf (pos_f (controller_f (Player_update (Fin 0.016) (Fin 0) (keyboard_paddle 37.9 100)))) = Fin 38"
    by (simp add: tick_defs Let_def)
  show ?thesis using h m(1) c y d' by blast
qed


section \<open>The trajectory fold\<close>

text \<open>
  C3, as the code has it. The fold of \<^verbatim>\<open>predict_ball\<close> maps a projected \<open>y\<close> of 130 to
  \<open>-30\<close> (shifted 180, cycle 180, above the span, so \<open>50 - 80\<close>), a projected \<open>y\<close> of 60
  to 40 and a projected \<open>y\<close> of 150 to \<open>-50\<close>.
\<close>

theorem fold_wall_values:
  "fold_wall 130 = -30 \<and> fold_wall 60 = 40 \<and> fold_wall 150 = -50"
  by (simp add: fold_wall_def fmod_def trunc_toward_zero_def)

text \<open>C3 as stated fails: a projected \<open>y\<close> of 130 does not fold to 30.\<close>

theorem fold_wall_130_counterexample:
  "fold_wall 130 \<noteq> 30"
  by (simp add: fold_wall_def fmod_def trunc_toward_zero_def)

section \<open>The inaccuracy of the Hard and VeryHard tiers\<close>

lemma rand_fraction_range:
  assumes "r1 \<le> rand_max" "0 < rand_max"
  shows "0 \<le> real r1 / real rand_max * 12" "real r1 / real rand_max * 12 \<le> 12"
proof -
  have "real r1 / real rand_max \<le> 1" using assms by simp
  then have "real r1 / real rand_max * 12 \<le> 1 * 12"
    by (rule mult_right_mono) simp
  then show "real r1 / real rand_max * 12 \<le> 12" by simp
  have "0 \<le> real r1 / real rand_max" by simp
  then show "0 \<le> real r1 / real rand_max * 12" by simp
qed

text \<open>
  C9. When the predictor fires (\<open>will_predict\<close> holds and the time to reach the paddle
  is positive) and \<^verbatim>\<open>rand()\<close> stays within \<open>0..RAND_MAX\<close>: at level 1 (Hard), unless the
  1-in-15 mistake triggers, the inaccuracy lies in \<open>[-16, -4]\<close> and the target is the
  folded prediction plus twice the inaccuracy, so 8 to 32 units below the prediction;
  at level 2 (VeryHard), unless the 1-in-5 mistake triggers, the inaccuracy lies in
  \<open>[-10, 2]\<close> and is likewise added twice.
\<close>

theorem predict_ball_error_doubled:
  assumes wp: "will_predict ball_vel paddle_x"
    and t: "(paddle_x - X ball_pos) / X ball_vel > 0"
    and r: "r1 \<le> rand_max" "0 < rand_max"
  shows "(r2 mod 15 \<noteq> 0 \<longrightarrow>
           (let folded = fold_wall (Y ball_pos + Y ball_vel * ((paddle_x - X ball_pos) / X ball_vel));
                inacurracy = real r1 / real rand_max * 12 - 16;
                target = predict_ball rand_max r1 r2 ball_vel ball_pos paddle_x target_y 1
            in -16 \<le> inacurracy \<and> inacurracy \<le> -4 \<and>
               target = folded + 2 * inacurracy \<and>
               folded - 32 \<le> target \<and> target \<le> folded - 8 \<and> target < folded)) \<and>
         (r2 mod 5 \<noteq> 0 \<longrightarrow>
           (let folded = fold_wall (Y ball_pos + Y ball_vel * ((paddle_x - X ball_pos) / X ball_vel));
                inacurracy = real r1 / real rand_max * 12 - 10;
                target = predict_ball rand_max r1 r2 ball_vel ball_pos paddle_x target_y 2
            in -10 \<le> inacurracy \<and> inacurracy \<le> 2 \<and>
               target = folded + 2 * inacurracy \<and>
               folded - 20 \<le> target \<and> target \<le> folded + 4))"
  using rand_fraction_range [OF r] wp t
  by (simp add: predict_ball_def Let_def)

text \<open>
  Witness: paddle at \<open>x = 70\<close>, ball at the origin with velocity \<open>(70, 130)\<close>, so the
  projection is 130 and folds to \<open>-30\<close>; \<^verbatim>\<open>rand()\<close> returns 0 and then 1 with
  \<open>RAND_MAX = 32767\<close>. Hard aims at \<open>-30 - 32\<close>, VeryHard at \<open>-30 - 20\<close>.
\<close>

theorem predict_ball_error_doubled_witness:
  "will_predict \<lparr>X = 70, Y = 130\<rparr> 70 \<and>
   (70 - X \<lparr>X = 0, Y = 0\<rparr>) / X \<lparr>X = 70, Y = 130\<rparr> > 0 \<and>
   (0::nat) \<le> 32767 \<and> (0::nat) < 32767 \<and> (1::nat) mod 15 \<noteq> 0 \<and> (1::nat) mod 5 \<noteq> 0 \<and>
   predict_ball 32767 0 1 \<lparr>X = 70, Y = 130\<rparr> \<lparr>X = 0, Y = 0\<rparr> 70 0 1 = -62 \<and>
   predict_ball 32767 0 1 \<lparr>X = 70, Y = 130\<rparr> \<lparr>X = 0, Y = 0\<rparr> 70 0 2 = -50"
  using predict_ball_error_doubled [of "\<lparr>X = 70, Y = 130\<rparr>" 70 "\<lparr>X = 0, Y = 0\<rparr>" 0 32767 1 0]
  by (simp add: will_predict_def fold_wall_def fmod_def trunc_toward_zero_def Let_def)

section \<open>Scoring\<close>

lemmas ball_collision_defs = BallController_add_collision_def BallController_add_collision_inc_def
  wall_bounce_def goal_right_def goal_left_def overlaps_def paddle_bounce_def
  paddle_bounce_inc_def paddle_hit_def pointee_def set_pointee_def score_right_def score_left_def

lemma add_collision_cases:
  assumes "player1 bc = Some p1" "player2 bc = Some p2" "\<not> scored bc"
  shows "\<exists>bc'. BallController_add_collision q bc = Inr bc' \<and>
           ((\<not> scored bc' \<and> winner bc' = winner bc \<and> player1 bc' = Some p1 \<and> player2 bc' = Some p2
              \<and> bsize bc' = bsize bc)
            \<or> (scored bc' \<and> winner bc' = 1 \<and> player1 bc' = Some (increment_score p1) \<and>
                player2 bc' = Some p2 \<and> X (bpos bc') = 80 + bsize bc \<and> X (bpos bc) + bsize bc > 80)
            \<or> (scored bc' \<and> winner bc' = 2 \<and> player1 bc' = Some p1 \<and>
                player2 bc' = Some (increment_score p2) \<and> X (bpos bc') = -80 - bsize bc \<and>
                \<not> X (bpos bc) + bsize bc > 80 \<and> X (bpos bc) - bsize bc < -80))"
  using assms
  by (simp add: BallController_add_collision_def wall_bounce_def goal_right_def goal_left_def
      score_right_def score_left_def paddle_bounce_def Let_def)

lemma add_collision_goal:
  assumes "player1 bc = Some p1" "player2 bc = Some p2"
  shows "X (bpos bc) + bsize bc > 80 \<Longrightarrow>
           \<exists>bc'. BallController_add_collision q bc = Inr bc' \<and> scored bc' \<and> winner bc' = 1"
    and "\<not> X (bpos bc) + bsize bc > 80 \<Longrightarrow> X (bpos bc) - bsize bc < -80 \<Longrightarrow>
           \<exists>bc'. BallController_add_collision q bc = Inr bc' \<and> scored bc' \<and> winner bc' = 2"
  using assms
  by (simp_all add: BallController_add_collision_def wall_bounce_def goal_right_def goal_left_def
      score_right_def score_left_def Let_def)

lemma score_incremented_differs: "p\<lparr>score := score p + 1\<rparr> \<noteq> (p :: Player)"
proof
  assume "p\<lparr>score := score p + 1\<rparr> = p"
  then have "score (p\<lparr>score := score p + 1\<rparr>) = score p" by simp
  then show False by simp
qed

lemma ball_update_outcome:
  assumes ns: "\<not> scored bc" and p1: "player1 bc = Some p1" and p2: "player2 bc = Some p2"
  shows "\<exists>bc'. BallController_update dt bc = Inr bc' \<and>
           ((\<not> scored bc' \<and> winner bc' = winner bc \<and>
               player1 bc' = Some p1 \<and> player2 bc' = Some p2)
            \<or> (scored bc' \<and> winner bc' = 1 \<and> X (bpos bc') = 80 + bsize bc \<and>
                player1 bc' = Some (p1\<lparr>score := score p1 + 1\<rparr>) \<and>
                player2 bc' = Some p2)
            \<or> (scored bc' \<and> winner bc' = 2 \<and> X (bpos bc') = -80 - bsize bc \<and>
                player1 bc' = Some p1 \<and>
                player2 bc' = Some (p2\<lparr>score := score p2 + 1\<rparr>))) \<and>
           (X (bpos bc) + X (bvel bc) * dt + bsize bc > 80 \<longrightarrow> winner bc' = 1) \<and>
           (\<not> X (bpos bc) + X (bvel bc) * dt + bsize bc > 80 \<and>
              X (bpos bc) + X (bvel bc) * dt - bsize bc < -80 \<longrightarrow> winner bc' = 2)"
proof -
  let ?b1 = "update_physics dt bc"
  have b1: "player1 ?b1 = Some p1" "player2 ?b1 = Some p2" "\<not> scored ?b1"
    "winner ?b1 = winner bc" "bsize ?b1 = bsize bc"
    "X (bpos ?b1) = X (bpos bc) + X (bvel bc) * dt"
    using assms by (simp_all add: update_physics_def)
  from add_collision_cases [OF b1(1,2,3), of p1]
  obtain b2 where b2: "BallController_add_collision p1 ?b1 = Inr b2"
    and c2: "(\<not> scored b2 \<and> winner b2 = winner ?b1 \<and> player1 b2 = Some p1 \<and> player2 b2 = Some p2
              \<and> bsize b2 = bsize ?b1)
            \<or> (scored b2 \<and> winner b2 = 1 \<and> player1 b2 = Some (increment_score p1) \<and>
                player2 b2 = Some p2 \<and> X (bpos b2) = 80 + bsize ?b1 \<and> X (bpos ?b1) + bsize ?b1 > 80)
            \<or> (scored b2 \<and> winner b2 = 2 \<and> player1 b2 = Some p1 \<and>
                player2 b2 = Some (increment_score p2) \<and> X (bpos b2) = -80 - bsize ?b1 \<and>
                \<not> X (bpos ?b1) + bsize ?b1 > 80 \<and> X (bpos ?b1) - bsize ?b1 < -80)"
    by blast
  show ?thesis
  proof (cases "scored b2")
    case True
    then have "BallController_update dt bc = Inr b2"
      using ns b1 b2 by (simp add: BallController_update_def Let_def)
    moreover have "X (bpos ?b1) + bsize ?b1 > 80 \<longrightarrow> winner b2 = 1"
      using add_collision_goal(1) [OF b1(1,2), of p1] b2 by auto
    moreover have "\<not> X (bpos ?b1) + bsize ?b1 > 80 \<and> X (bpos ?b1) - bsize ?b1 < -80
        \<longrightarrow> winner b2 = 2"
      using add_collision_goal(2) [OF b1(1,2), of p1] b2 by auto
    ultimately show ?thesis
      using True c2 b1 by (auto simp: increment_score_def)
  next
    case False
    then have nb: "\<not> scored b2" "winner b2 = winner bc" "player1 b2 = Some p1"
      "player2 b2 = Some p2" "bsize b2 = bsize bc"
      using c2 b1 by auto
    have ng: "\<not> X (bpos ?b1) + bsize ?b1 > 80" "\<not> X (bpos ?b1) - bsize ?b1 < -80"
      using add_collision_goal [OF b1(1,2), of p1] b2 False by auto
    from add_collision_cases [OF nb(3,4,1), of p2]
    obtain b3 where b3: "BallController_add_collision p2 b2 = Inr b3"
      and c3: "(\<not> scored b3 \<and> winner b3 = winner b2 \<and> player1 b3 = Some p1 \<and> player2 b3 = Some p2
              \<and> bsize b3 = bsize b2)
            \<or> (scored b3 \<and> winner b3 = 1 \<and> player1 b3 = Some (increment_score p1) \<and>
                player2 b3 = Some p2 \<and> X (bpos b3) = 80 + bsize b2 \<and> X (bpos b2) + bsize b2 > 80)
            \<or> (scored b3 \<and> winner b3 = 2 \<and> player1 b3 = Some p1 \<and>
                player2 b3 = Some (increment_score p2) \<and> X (bpos b3) = -80 - bsize b2 \<and>
                \<not> X (bpos b2) + bsize b2 > 80 \<and> X (bpos b2) - bsize b2 < -80)"
      by blast
    have "BallController_update dt bc = Inr b3"
      using ns b1 b2 b3 nb by (simp add: BallController_update_def Let_def)
    then show ?thesis
      using c3 nb ng b1 by (auto simp: increment_score_def)
  qed
qed


text \<open>
  C4. One call of \<^verbatim>\<open>BallController::update\<close> from a state that has not scored, with both
  players present, returns without fault in exactly one of three ways: no goal (\<open>scored\<close>
  stays false, \<open>winner\<close> and both players are unchanged); \<open>winner = 1\<close> with the ball put
  at \<open>80 + size\<close>, the score of player 1 incremented by one and player 2 unchanged;
  or \<open>winner = 2\<close> with the ball put at \<open>-80 - size\<close>, the score of player 2 incremented
  by one and player 1 unchanged. A ball that the integration step carries past \<open>+80\<close>
  gives \<open>winner = 1\<close>, and one carried past \<open>-80\<close> (and not past \<open>+80\<close>) gives
  \<open>winner = 2\<close>.
\<close>

theorem ball_update_scores_once:
  assumes ns: "\<not> scored bc" and p1: "player1 bc = Some p1" and p2: "player2 bc = Some p2"
  shows "\<exists>bc'. BallController_update dt bc = Inr bc' \<and>
           ((\<not> scored bc' \<and> winner bc' = winner bc \<and>
               player1 bc' = Some p1 \<and> player2 bc' = Some p2)
            \<or> (scored bc' \<and> winner bc' = 1 \<and> X (bpos bc') = 80 + bsize bc \<and>
                player1 bc' = Some (p1\<lparr>score := score p1 + 1\<rparr>) \<and> player1 bc' \<noteq> Some p1 \<and>
                player2 bc' = Some p2)
            \<or> (scored bc' \<and> winner bc' = 2 \<and> X (bpos bc') = -80 - bsize bc \<and>
                player1 bc' = Some p1 \<and>
                player2 bc' = Some (p2\<lparr>score := score p2 + 1\<rparr>) \<and> player2 bc' \<noteq> Some p2)) \<and>
           (X (bpos bc) + X (bvel bc) * dt + bsize bc > 80 \<longrightarrow> winner bc' = 1) \<and>
           (\<not> X (bpos bc) + X (bvel bc) * dt + bsize bc > 80 \<and>
              X (bpos bc) + X (bvel bc) * dt - bsize bc < -80 \<longrightarrow> winner bc' = 2)"
proof -
  have n1: "Some (p1\<lparr>score := score p1 + 1\<rparr>) \<noteq> Some p1"
    by (simp add: score_incremented_differs)
  have n2: "Some (p2\<lparr>score := score p2 + 1\<rparr>) \<noteq> Some p2"
    by (simp add: score_incremented_differs)
  from ball_update_outcome [OF assms, of dt]
  obtain bc' where u: "BallController_update dt bc = Inr bc'"
    and d: "(\<not> scored bc' \<and> winner bc' = winner bc \<and>
               player1 bc' = Some p1 \<and> player2 bc' = Some p2)
            \<or> (scored bc' \<and> winner bc' = 1 \<and> X (bpos bc') = 80 + bsize bc \<and>
                player1 bc' = Some (p1\<lparr>score := score p1 + 1\<rparr>) \<and>
                player2 bc' = Some p2)
            \<or> (scored bc' \<and> winner bc' = 2 \<and> X (bpos bc') = -80 - bsize bc \<and>
                player1 bc' = Some p1 \<and>
                player2 bc' = Some (p2\<lparr>score := score p2 + 1\<rparr>))"
    and g1: "X (bpos bc) + X (bvel bc) * dt + bsize bc > 80 \<longrightarrow> winner bc' = 1"
    and g2: "\<not> X (bpos bc) + X (bvel bc) * dt + bsize bc > 80 \<and>
              X (bpos bc) + X (bvel bc) * dt - bsize bc < -80 \<longrightarrow> winner bc' = 2"
    by blast
  from d n1 have e1: "player1 bc' = Some (p1\<lparr>score := score p1 + 1\<rparr>) \<longrightarrow> player1 bc' \<noteq> Some p1"
    by metis
  from d n2 have e2: "player2 bc' = Some (p2\<lparr>score := score p2 + 1\<rparr>) \<longrightarrow> player2 bc' \<noteq> Some p2"
    by metis
  show ?thesis
    using u d g1 g2 e1 e2 by blast
qed

text \<open>
  Witness: the ball at \<open>(79.5, 0)\<close> with velocity \<open>(50, 0)\<close> and size 1.2, \<open>dt = 0.02\<close>:
  the tick scores for player 1 and leaves the ball at \<open>x = 81.2\<close>.
\<close>

theorem ball_update_scores_once_witness:
  "\<not> scored (served_ball\<lparr>bpos := \<lparr>X = 79.5, Y = 0\<rparr>, bvel := \<lparr>X = 50, Y = 0\<rparr>\<rparr>) \<and>
   player1 (served_ball\<lparr>bpos := \<lparr>X = 79.5, Y = 0\<rparr>, bvel := \<lparr>X = 50, Y = 0\<rparr>\<rparr>) = Some left_paddle \<and>
   player2 (served_ball\<lparr>bpos := \<lparr>X = 79.5, Y = 0\<rparr>, bvel := \<lparr>X = 50, Y = 0\<rparr>\<rparr>) = Some right_paddle \<and>
   (\<exists>bc'. BallController_update 0.02
             (served_ball\<lparr>bpos := \<lparr>X = 79.5, Y = 0\<rparr>, bvel := \<lparr>X = 50, Y = 0\<rparr>\<rparr>) = Inr bc' \<and>
          scored bc' \<and> winner bc' = 1 \<and> X (bpos bc') = 81.2 \<and>
          player1 bc' = Some (left_paddle\<lparr>score := 1\<rparr>) \<and> player2 bc' = Some right_paddle)"
proof -
  let ?bc = "served_ball\<lparr>bpos := \<lparr>X = 79.5, Y = 0\<rparr>, bvel := \<lparr>X = 50, Y = 0\<rparr>\<rparr>"
  have h: "\<not> scored ?bc" "player1 ?bc = Some left_paddle" "player2 ?bc = Some right_paddle"
    by (simp_all add: served_ball_def BallController_init_def)
  have v: "winner ?bc = 0" "bsize ?bc = 1.2" "X (bpos ?bc) = 79.5" "X (bvel ?bc) = 50"
    by (simp_all add: served_ball_def BallController_init_def)
  have sz: "bsize served_ball = 1.2"
    by (simp add: served_ball_def BallController_init_def)
  have s: "score left_paddle = 0"
    by (simp add: left_paddle_def)
  from ball_update_scores_once [OF h, of "0.02"]
  obtain bc' where u: "BallController_update 0.02 ?bc = Inr bc'"
    and d: "(\<not> scored bc' \<and> winner bc' = winner ?bc \<and>
               player1 bc' = Some left_paddle \<and> player2 bc' = Some right_paddle)
            \<or> (scored bc' \<and> winner bc' = 1 \<and> X (bpos bc') = 80 + bsize ?bc \<and>
                player1 bc' = Some (left_paddle\<lparr>score := score left_paddle + 1\<rparr>) \<and>
                player1 bc' \<noteq> Some left_paddle \<and> player2 bc' = Some right_paddle)
            \<or> (scored bc' \<and> winner bc' = 2 \<and> X (bpos bc') = -80 - bsize ?bc \<and>
                player1 bc' = Some left_paddle \<and>
                player2 bc' = Some (right_paddle\<lparr>score := score right_paddle + 1\<rparr>) \<and>
                player2 bc' \<noteq> Some right_paddle)"
    and g: "X (bpos ?bc) + X (bvel ?bc) * 0.02 + bsize ?bc > 80 \<longrightarrow> winner bc' = 1"
    by blast
  have w: "winner bc' = 1"
    using g by (simp only: v) simp
  have "scored bc' \<and> X (bpos bc') = 80 + bsize ?bc \<and>
        player1 bc' = Some (left_paddle\<lparr>score := score left_paddle + 1\<rparr>) \<and>
        player2 bc' = Some right_paddle"
    using d w v(1) by auto
  then have "scored bc' \<and> winner bc' = 1 \<and> X (bpos bc') = 81.2 \<and>
        player1 bc' = Some (left_paddle\<lparr>score := 1\<rparr>) \<and> player2 bc' = Some right_paddle"
    using w sz by (simp add: s)
  with u h show ?thesis by blast
qed


section \<open>The paddle bounce in the two variants\<close>

text \<open>
  C2 as stated fails: a ball that overlaps the left paddle with the horizontal velocity
  \<open>0.0001\<close> leaves the collision response of either variant with the horizontal
  velocity 0.
\<close>

theorem paddle_bounce_zero_counterexample:
  "paddle_hit left_paddle (served_ball\<lparr>bpos := \<lparr>X = -67, Y = 0\<rparr>, bvel := \<lparr>X = 0.0001, Y = 0\<rparr>\<rparr>) \<and>
   map_sum id bvel (BallController_add_collision left_paddle
      (served_ball\<lparr>bpos := \<lparr>X = -67, Y = 0\<rparr>, bvel := \<lparr>X = 0.0001, Y = 0\<rparr>\<rparr>))
     = Inr \<lparr>X = 0, Y = 0\<rparr> \<and>
   map_sum id bvel (BallController_add_collision_inc First
      (served_ball\<lparr>bpos := \<lparr>X = -67, Y = 0\<rparr>, bvel := \<lparr>X = 0.0001, Y = 0\<rparr>\<rparr>))
     = Inr \<lparr>X = 0, Y = 0.0001\<rparr>"
  by (simp add: match_start_defs ball_collision_defs Let_def)

text \<open>
  C2, amended. Whenever the overlap test fires, in either variant, the horizontal
  velocity after the response is the negated one plus \<open>0.0001\<close>; it is nonzero exactly
  when the velocity before the collision was not \<open>0.0001\<close>.
\<close>

theorem paddle_bounce_velocity_x:
  assumes "paddle_hit player bc"
  shows "BallController_add_collision player bc = Inr (paddle_bounce player (wall_bounce bc)) \<and>
         X (bvel (paddle_bounce player (wall_bounce bc))) = - X (bvel bc) + 0.0001 \<and>
         (X (bvel (paddle_bounce player (wall_bounce bc))) \<noteq> 0 \<longleftrightarrow> X (bvel bc) \<noteq> 0.0001) \<and>
         (pointee w bc = Some player \<longrightarrow>
            BallController_add_collision_inc w bc =
              Inr (paddle_bounce_inc w player (wall_bounce bc)) \<and>
            X (bvel (paddle_bounce_inc w player (wall_bounce bc))) = - X (bvel bc) + 0.0001 \<and>
            (X (bvel (paddle_bounce_inc w player (wall_bounce bc))) \<noteq> 0
               \<longleftrightarrow> X (bvel bc) \<noteq> 0.0001))"
  using assms
  by (cases w) (auto simp: ball_collision_defs Let_def)

text \<open>Witness: the served ball coming back at \<open>-95\<close> onto the left paddle leaves at \<open>95.0001\<close>.\<close>

theorem paddle_bounce_velocity_x_witness:
  "paddle_hit left_paddle (served_ball\<lparr>bpos := \<lparr>X = -67, Y = 0\<rparr>, bvel := \<lparr>X = -95, Y = 0\<rparr>\<rparr>) \<and>
   pointee First (served_ball\<lparr>bpos := \<lparr>X = -67, Y = 0\<rparr>, bvel := \<lparr>X = -95, Y = 0\<rparr>\<rparr>)
     = Some left_paddle \<and>
   X (bvel (paddle_bounce left_paddle
        (wall_bounce (served_ball\<lparr>bpos := \<lparr>X = -67, Y = 0\<rparr>, bvel := \<lparr>X = -95, Y = 0\<rparr>\<rparr>))))
     = 95.0001 \<and>
   X (bvel (paddle_bounce_inc First left_paddle
        (wall_bounce (served_ball\<lparr>bpos := \<lparr>X = -67, Y = 0\<rparr>, bvel := \<lparr>X = -95, Y = 0\<rparr>\<rparr>))))
     = 95.0001"
  using paddle_bounce_velocity_x [of left_paddle
      "served_ball\<lparr>bpos := \<lparr>X = -67, Y = 0\<rparr>, bvel := \<lparr>X = -95, Y = 0\<rparr>\<rparr>" First]
  by (simp add: match_start_defs ball_collision_defs Let_def)

text \<open>
  C5 as stated fails: on the same ball and paddle (a centred hit on a paddle at rest)
  the first variant leaves the vertical velocity at 0 and the second at \<open>0.0001\<close>.
\<close>

theorem variants_differ_counterexample:
  "paddle_hit left_paddle (served_ball\<lparr>bpos := \<lparr>X = -67, Y = 0\<rparr>, bvel := \<lparr>X = -95, Y = 0\<rparr>\<rparr>) \<and>
   pointee First (served_ball\<lparr>bpos := \<lparr>X = -67, Y = 0\<rparr>, bvel := \<lparr>X = -95, Y = 0\<rparr>\<rparr>)
     = Some left_paddle \<and>
   map_sum id bvel (BallController_add_collision left_paddle
      (served_ball\<lparr>bpos := \<lparr>X = -67, Y = 0\<rparr>, bvel := \<lparr>X = -95, Y = 0\<rparr>\<rparr>))
     = Inr \<lparr>X = 95.0001, Y = 0\<rparr> \<and>
   map_sum id bvel (BallController_add_collision_inc First
      (served_ball\<lparr>bpos := \<lparr>X = -67, Y = 0\<rparr>, bvel := \<lparr>X = -95, Y = 0\<rparr>\<rparr>))
     = Inr \<lparr>X = 95.0001, Y = 0.0001\<rparr>"
  by (simp add: match_start_defs ball_collision_defs Let_def)

text \<open>
  C5, amended. On the same ball and paddle (of nonzero height), when the overlap test
  fires, both variants
  return without fault, put the ball at the same position and give it the same
  horizontal velocity, the negated one plus \<open>0.0001\<close>. The first variant adds to the
  vertical velocity exactly \<open>((ball.y - paddle.y) / paddle.height) * 38 + dp * 0.20\<close>;
  the second adds \<open>0.0001\<close> more than the first.
\<close>

theorem variants_agree_up_to_epsilon:
  assumes "paddle_hit player bc" "pointee w bc = Some player" "height player \<noteq> 0"
  shows "\<exists>b1 b2. BallController_add_collision player bc = Inr b1 \<and>
           BallController_add_collision_inc w bc = Inr b2 \<and>
           X (bvel b1) = - X (bvel bc) + 0.0001 \<and>
           X (bvel b2) = X (bvel b1) \<and>
           Y (bvel b1) = Y (bvel (wall_bounce bc)) +
              ((Y (bpos (wall_bounce bc)) - Y (pos (controller player))) / height player * 38 +
               dp (controller player) * 0.20) \<and>
           Y (bvel b2) = Y (bvel b1) + 0.0001 \<and>
           bpos b2 = bpos b1"
  using assms
  by (cases w) (auto simp: ball_collision_defs Let_def)

text \<open>
  Witness: the ball hits the left paddle 6 units below its centre while the paddle
  moves at 10 units per second: the first variant adds \<open>6 / 12 * 38 + 10 * 0.2 = 21\<close>.
\<close>

theorem variants_agree_up_to_epsilon_witness:
  "paddle_hit (left_paddle\<lparr>controller := (controller left_paddle)\<lparr>dp := 10\<rparr>\<rparr>)
     ((served_ball\<lparr>player1 := Some (left_paddle\<lparr>controller := (controller left_paddle)\<lparr>dp := 10\<rparr>\<rparr>)\<rparr>)
        \<lparr>bpos := \<lparr>X = -67, Y = 6\<rparr>, bvel := \<lparr>X = -95, Y = 0\<rparr>\<rparr>) \<and>
   pointee First
     ((served_ball\<lparr>player1 := Some (left_paddle\<lparr>controller := (controller left_paddle)\<lparr>dp := 10\<rparr>\<rparr>)\<rparr>)
        \<lparr>bpos := \<lparr>X = -67, Y = 6\<rparr>, bvel := \<lparr>X = -95, Y = 0\<rparr>\<rparr>)
     = Some (left_paddle\<lparr>controller := (controller left_paddle)\<lparr>dp := 10\<rparr>\<rparr>) \<and>
   height (left_paddle\<lparr>controller := (controller left_paddle)\<lparr>dp := 10\<rparr>\<rparr>) = 12 \<and>
   map_sum id bvel (BallController_add_collision
      (left_paddle\<lparr>controller := (controller left_paddle)\<lparr>dp := 10\<rparr>\<rparr>)
      ((served_ball\<lparr>player1 := Some (left_paddle\<lparr>controller := (controller left_paddle)\<lparr>dp := 10\<rparr>\<rparr>)\<rparr>)
        \<lparr>bpos := \<lparr>X = -67, Y = 6\<rparr>, bvel := \<lparr>X = -95, Y = 0\<rparr>\<rparr>))
     = Inr \<lparr>X = 95.0001, Y = 21\<rparr> \<and>
   map_sum id bvel (BallController_add_collision_inc First
      ((served_ball\<lparr>player1 := Some (left_paddle\<lparr>controller := (controller left_paddle)\<lparr>dp := 10\<rparr>\<rparr>)\<rparr>)
        \<lparr>bpos := \<lparr>X = -67, Y = 6\<rparr>, bvel := \<lparr>X = -95, Y = 0\<rparr>\<rparr>))
     = Inr \<lparr>X = 95.0001, Y = 21.0001\<rparr>"
  using variants_agree_up_to_epsilon [of
      "left_paddle\<lparr>controller := (controller left_paddle)\<lparr>dp := 10\<rparr>\<rparr>"
      "(served_ball\<lparr>player1 := Some (left_paddle\<lparr>controller := (controller left_paddle)\<lparr>dp := 10\<rparr>\<rparr>)\<rparr>)
        \<lparr>bpos := \<lparr>X = -67, Y = 6\<rparr>, bvel := \<lparr>X = -95, Y = 0\<rparr>\<rparr>" First]
  by (simp add: match_start_defs ball_collision_defs Let_def)

section \<open>Glyph lookup\<close>

lemma FONT_5x7_length: "length FONT_5x7 = 37" "length FONT_5x7_inc = 41"
  by (simp_all add: FONT_5x7_def FONT_5x7_inc_def)

lemma FONT_5x7_space: "FONT_5x7 ! 36 = [0, 0, 0, 0, 0, 0, 0]" "FONT_5x7_inc ! 36 = [0, 0, 0, 0, 0, 0, 0]"
  by (simp_all add: FONT_5x7_def FONT_5x7_inc_def)

lemma font_row_space:
  "font_row FONT_5x7 36 = Inr [0, 0, 0, 0, 0, 0, 0]"
  "font_row FONT_5x7_inc 36 = Inr [0, 0, 0, 0, 0, 0, 0]"
  by (simp_all add: font_row_def FONT_5x7_length FONT_5x7_space)

lemma blank_glyph_draws_nothing: "glyph_rects [0, 0, 0, 0, 0, 0, 0] cx cy ps col = []"
  by (simp add: glyph_rects_def Let_def nth_Cons')

lemma glyph_index_bounds: "0 \<le> glyph_index c \<and> glyph_index c < 37"
  by (simp add: glyph_index_def Let_def)

lemma glyph_index_inc_bounds: "0 \<le> glyph_index_inc c \<and> glyph_index_inc c < 41"
  by (simp add: glyph_index_inc_def Let_def)

lemma glyph_index_blank: "\<not> has_glyph c \<Longrightarrow> glyph_index c = 36"
  by (auto simp add: glyph_index_def has_glyph_def Let_def)

lemma glyph_index_inc_blank: "\<not> has_glyph_inc c \<Longrightarrow> glyph_index_inc c = 36"
  by (auto simp add: glyph_index_inc_def has_glyph_inc_def has_glyph_def Let_def)

text \<open>
  C8. For every byte \<open>c\<close>, in both variants, the index \<^verbatim>\<open>render_glyph_5x7\<close> computes lies
  within the font table, so the call returns its rectangles without the fault
  \<open>OutOfBounds\<close>; and a character with no glyph of its own (not a digit or a capital
  letter, and in the second variant not one of \<open>% : - !\<close>) selects row 36, the
  all-zero glyph, for which the call draws no rectangle.
\<close>

theorem render_glyph_in_bounds:
  "0 \<le> glyph_index c \<and> glyph_index c < int (length FONT_5x7) \<and>
   0 \<le> glyph_index_inc c \<and> glyph_index_inc c < int (length FONT_5x7_inc) \<and>
   (\<exists>rects. render_glyph_5x7 rs c cx cy ps col = Inr rects) \<and>
   (\<exists>rects. render_glyph_5x7_inc rs c cx cy ps col = Inr rects) \<and>
   (\<not> has_glyph c \<longrightarrow>
      glyph_index c = 36 \<and>
      font_row FONT_5x7 (glyph_index c) = Inr [0, 0, 0, 0, 0, 0, 0] \<and>
      render_glyph_5x7 rs c cx cy ps col = Inr []) \<and>
   (\<not> has_glyph_inc c \<longrightarrow>
      glyph_index_inc c = 36 \<and>
      font_row FONT_5x7_inc (glyph_index_inc c) = Inr [0, 0, 0, 0, 0, 0, 0] \<and>
      render_glyph_5x7_inc rs c cx cy ps col = Inr [])"
proof -
  have a: "font_row FONT_5x7 (glyph_index c) = Inr (FONT_5x7 ! nat (glyph_index c))"
    using glyph_index_bounds [of c] by (simp add: font_row_def FONT_5x7_length)
  have b: "font_row FONT_5x7_inc (glyph_index_inc c) = Inr (FONT_5x7_inc ! nat (glyph_index_inc c))"
    using glyph_index_inc_bounds [of c] by (simp add: font_row_def FONT_5x7_length)
  have c1: "\<exists>rects. render_glyph_5x7 rs c cx cy ps col = Inr rects"
    by (simp add: render_glyph_5x7_def a)
  have c2: "\<exists>rects. render_glyph_5x7_inc rs c cx cy ps col = Inr rects"
    by (simp add: render_glyph_5x7_inc_def b)
  have d1: "glyph_index c = 36 \<and>
      font_row FONT_5x7 (glyph_index c) = Inr [0, 0, 0, 0, 0, 0, 0] \<and>
      render_glyph_5x7 rs c cx cy ps col = Inr []" if "\<not> has_glyph c"
    using glyph_index_blank [OF that]
    by (simp add: render_glyph_5x7_def font_row_space blank_glyph_draws_nothing)
  have d2: "glyph_index_inc c = 36 \<and>
      font_row FONT_5x7_inc (glyph_index_inc c) = Inr [0, 0, 0, 0, 0, 0, 0] \<and>
      render_glyph_5x7_inc rs c cx cy ps col = Inr []" if "\<not> has_glyph_inc c"
    using glyph_index_inc_blank [OF that]
    by (simp add: render_glyph_5x7_inc_def font_row_space blank_glyph_draws_nothing)
  have e1: "0 \<le> glyph_index c \<and> glyph_index c < int (length FONT_5x7)"
    using glyph_index_bounds [of c] by (simp add: FONT_5x7_length)
  have e2: "0 \<le> glyph_index_inc c \<and> glyph_index_inc c < int (length FONT_5x7_inc)"
    using glyph_index_inc_bounds [of c] by (simp add: FONT_5x7_length)
  show ?thesis
    using e1 e2 c1 c2 d1 d2 by blast
qed

text \<open>
  Witness: the byte 200 (the \<^verbatim>\<open>char\<close> \<open>-56\<close>) and the tilde, 126, have no glyph and draw
  nothing in a 1080 by 720 buffer.
\<close>

theorem render_glyph_in_bounds_witness:
  "\<not> has_glyph 200 \<and> \<not> has_glyph_inc 200 \<and> \<not> has_glyph 126 \<and> \<not> has_glyph_inc 126 \<and>
   render_glyph_5x7 \<lparr>memory = True, rs_width = 1080, rs_height = 720\<rparr> 200 0 0 1 0xFFFFFF = Inr [] \<and>
   render_glyph_5x7_inc \<lparr>memory = True, rs_width = 1080, rs_height = 720\<rparr> 200 0 0 1 0xFFFFFF = Inr [] \<and>
   render_glyph_5x7 \<lparr>memory = True, rs_width = 1080, rs_height = 720\<rparr> 126 0 0 1 0xFFFFFF = Inr [] \<and>
   render_glyph_5x7_inc \<lparr>memory = True, rs_width = 1080, rs_height = 720\<rparr> 126 0 0 1 0xFFFFFF = Inr []"
  using render_glyph_in_bounds [of 200 "\<lparr>memory = True, rs_width = 1080, rs_height = 720\<rparr>" 0 0 1 "0xFFFFFF"]
    render_glyph_in_bounds [of 126 "\<lparr>memory = True, rs_width = 1080, rs_height = 720\<rparr>" 0 0 1 "0xFFFFFF"]
  by (simp add: has_glyph_def has_glyph_inc_def)

section \<open>Settings stay in range\<close>

lemma move_selection_keeps_values:
  "settings_in_range (st\<lparr>settings_index := i\<rparr>) = settings_in_range st"
  by (simp add: settings_in_range_def)

lemma settings_frame_in_range:
  assumes "settings_in_range st"
  shows "settings_in_range (settings_frame b st)"
proof -
  have l: "settings_in_range (settings_left s)" if "settings_in_range s" for s
    using that by (auto simp: settings_left_def settings_in_range_def max_def)
  have r: "settings_in_range (settings_right s)" if "settings_in_range s" for s
    using that by (auto simp: settings_right_def settings_in_range_def min_def)
  show ?thesis
    using assms by (simp add: settings_frame_def Let_def l r move_selection_keeps_values)
qed

lemma round_to_upper:
  assumes "v \<le> 2.9"
  shows "round_to v 1 \<le> 3"
proof -
  have "v * 10 \<le> 29" using assms by simp
  then have "std_round (v * 10) \<le> 29"
    unfolding std_round_def by (auto simp: floor_le_iff ceiling_le_iff)
  then show ?thesis by (simp add: round_to_def)
qed

lemma round_to_lower:
  assumes "0.6 \<le> v"
  shows "0.5 \<le> round_to v 1"
proof -
  have "6 \<le> v * 10" using assms by simp
  then have "6 \<le> std_round (v * 10)"
    unfolding std_round_def by (auto simp: le_floor_iff)
  then show ?thesis by (simp add: round_to_def)
qed

lemma settings_left_inc_in_range:
  assumes "settings_in_range st"
  shows "settings_in_range (settings_left_inc st)"
proof -
  have "round_to (st_ball_speed st - 0.1) 1 \<le> 3"
    using assms by (intro round_to_upper) (simp add: settings_in_range_def)
  then show ?thesis
    using assms by (auto simp: settings_left_inc_def settings_in_range_def max_def)
qed

lemma settings_right_inc_in_range:
  assumes "settings_in_range st"
  shows "settings_in_range (settings_right_inc st)"
proof -
  have "0.5 \<le> round_to (st_ball_speed st + 0.1) 1"
    using assms by (intro round_to_lower) (simp add: settings_in_range_def)
  then show ?thesis
    using assms by (auto simp: settings_right_inc_def settings_in_range_def min_def)
qed

lemma settings_frame_inc_in_range:
  assumes "settings_in_range st"
  shows "settings_in_range (settings_frame_inc b st)"
  using assms
  by (simp add: settings_frame_inc_def Let_def settings_left_inc_in_range
      settings_right_inc_in_range move_selection_keeps_values)

lemma settings_run_in_range:
  "settings_in_range st \<Longrightarrow> settings_in_range (settings_run bs st)"
  by (induction bs arbitrary: st) (simp_all add: settings_frame_in_range)

lemma settings_run_inc_in_range:
  "settings_in_range st \<Longrightarrow> settings_in_range (settings_run_inc bs st)"
  by (induction bs arbitrary: st) (simp_all add: settings_frame_inc_in_range)

text \<open>
  C7 as stated fails in the second variant, whose menu starts from the configuration:
  with a configuration file holding a ball speed of 10 and an AI difficulty of 7, one
  press of Left on the first row leaves the ball speed at 9.9 and the difficulty at 7.
\<close>

theorem settings_leave_range_counterexample:
  "st_ball_speed (settings_run_inc [press BUTTON_LEFT_ARROW]
      (Settings_initial_inc (Config_default\<lparr>cfg_ball_speed := 10, cfg_ai_difficulty := 7\<rparr>))) = 9.9 \<and>
   st_ai_difficulty (settings_run_inc [press BUTTON_LEFT_ARROW]
      (Settings_initial_inc (Config_default\<lparr>cfg_ball_speed := 10, cfg_ai_difficulty := 7\<rparr>))) = 7 \<and>
   \<not> settings_in_range (settings_run_inc [press BUTTON_LEFT_ARROW]
      (Settings_initial_inc (Config_default\<lparr>cfg_ball_speed := 10, cfg_ai_difficulty := 7\<rparr>)))"
  by (simp add: settings_frame_inc_def settings_left_inc_def settings_right_inc_def
      settings_in_range_def Settings_initial_inc_def Config_default_def press_def is_pressed_def key_is_down_def key_is_changed_def
      move_selection_def round_to_def std_round_def Let_def)

text \<open>
  C7, amended. In the first variant, whose menu starts from ball speed 1.0 and
  difficulty 1, every sequence of frames of the settings menu keeps the ball speed in
  \<open>[0.5, 3.0]\<close> and the difficulty in \<open>[0, 4]\<close>. In the second variant the same holds
  from every starting point within these ranges, and the built-in configuration
  (ball speed 1.4, difficulty 1) is one.
\<close>

theorem settings_stay_in_range:
  "settings_in_range (settings_run bs Settings_initial) \<and>
   settings_in_range (settings_run_inc bs (Settings_initial_inc Config_default)) \<and>
   (settings_in_range st \<longrightarrow> settings_in_range (settings_run_inc bs st))"
proof -
  have "settings_in_range Settings_initial"
    by (simp add: settings_in_range_def Settings_initial_def)
  moreover have "settings_in_range (Settings_initial_inc Config_default)"
    by (simp add: settings_in_range_def Settings_initial_inc_def Config_default_def)
  ultimately show ?thesis
    by (simp add: settings_run_in_range settings_run_inc_in_range)
qed

text \<open>
  Witness: from ball speed 3.0 and difficulty 4 on the first row, Right, then three
  times Down, then Right leave both where they are, at the upper ends of their ranges.
\<close>

theorem settings_stay_in_range_witness:
  "settings_in_range ((Settings_initial_inc Config_default)\<lparr>st_ball_speed := 3.0, st_ai_difficulty := 4\<rparr>) \<and>
   st_ball_speed (settings_run_inc
      [press BUTTON_RIGHT_ARROW, press BUTTON_DOWN, press BUTTON_DOWN, press BUTTON_DOWN,
       press BUTTON_RIGHT_ARROW]
      ((Settings_initial_inc Config_default)\<lparr>st_ball_speed := 3.0, st_ai_difficulty := 4\<rparr>)) = 3 \<and>
   st_ai_difficulty (settings_run_inc
      [press BUTTON_RIGHT_ARROW, press BUTTON_DOWN, press BUTTON_DOWN, press BUTTON_DOWN,
       press BUTTON_RIGHT_ARROW]
      ((Settings_initial_inc Config_default)\<lparr>st_ball_speed := 3.0, st_ai_difficulty := 4\<rparr>)) = 4"
  using settings_stay_in_range [of
      "[press BUTTON_RIGHT_ARROW, press BUTTON_DOWN, press BUTTON_DOWN, press BUTTON_DOWN,
        press BUTTON_RIGHT_ARROW]"
      "(Settings_initial_inc Config_default)\<lparr>st_ball_speed := 3.0, st_ai_difficulty := 4\<rparr>"]
  by (simp add: settings_frame_inc_def settings_left_inc_def settings_right_inc_def
      settings_in_range_def Settings_initial_inc_def Config_default_def press_def is_pressed_def key_is_down_def key_is_changed_def
      move_selection_def round_to_def std_round_def Let_def)

section \<open>Particle burst: finished and empty\<close>

lemma update_keeps_shape:
  "renderer (ParticleBurst_update dt pb) = renderer pb"
  "count (ParticleBurst_update dt pb) = count pb"
  "lifetime (ParticleBurst_update dt pb) = lifetime pb"
  by (simp_all add: ParticleBurst_update_def Let_def)

lemma start_keeps_shape:
  "renderer (ParticleBurst_start rand_max rnd x y pb) = renderer pb"
  "count (ParticleBurst_start rand_max rnd x y pb) = count pb"
  "lifetime (ParticleBurst_start rand_max rnd x y pb) = lifetime pb"
  by (simp_all add: ParticleBurst_start_def)

lemma start_active_nonempty:
  assumes "renderer pb" "0 < count pb"
  shows "active (ParticleBurst_start rand_max rnd x y pb)"
    and "particles (ParticleBurst_start rand_max rnd x y pb) \<noteq> []"
    and "length (particles (ParticleBurst_start rand_max rnd x y pb)) = nat (count pb)"
  using assms by (simp_all add: ParticleBurst_start_def)

lemma update_active_iff:
  assumes "active pb \<longleftrightarrow> particles pb \<noteq> []"
  shows "active (ParticleBurst_update dt pb) \<longleftrightarrow> particles (ParticleBurst_update dt pb) \<noteq> []"
  using assms by (simp add: ParticleBurst_update_def Let_def)

lemma update_empty_inactive:
  assumes "particles pb = [] \<longrightarrow> \<not> active pb"
  shows "particles (ParticleBurst_update dt pb) = [] \<longrightarrow> \<not> active (ParticleBurst_update dt pb)"
  using assms by (simp add: ParticleBurst_update_def Let_def)

lemma reachable_burst_invariant:
  assumes "reachable_burst rand_max pb"
  shows "renderer pb \<and> count pb = 80 \<and> (active pb \<longleftrightarrow> particles pb \<noteq> [])"
  using assms
proof (induction rule: reachable_burst.induct)
  case constructed
  show ?case by (simp add: ParticleBurst_ctor_def)
next
  case (started pb rnd x y)
  then show ?case
    using start_active_nonempty(1,2) [of pb rand_max rnd x y]
    by (simp add: start_keeps_shape)
next
  case (updated pb dt)
  then show ?case
    using update_active_iff [of pb dt] by (simp add: update_keeps_shape)
qed

lemma reachable_burst_inc_invariant:
  assumes "reachable_burst_inc rand_max pb"
  shows "renderer pb \<and> count pb = 80 \<and> (particles pb = [] \<longrightarrow> \<not> active pb)"
  using assms
proof (induction rule: reachable_burst_inc.induct)
  case constructed_inc
  show ?case by (simp add: ParticleBurst_ctor_def)
next
  case (started_inc pb rnd x y)
  then show ?case
    using start_active_nonempty(2) [of pb rand_max rnd x y]
    by (simp add: start_keeps_shape)
next
  case (updated_inc pb dt)
  then show ?case
    using update_empty_inactive [of pb dt] by (simp add: update_keeps_shape)
next
  case (deactivated_inc pb)
  then show ?case by simp
qed

lemma aged_update:
  assumes "aged ps0 t pb"
  shows "aged ps0 (t + dt) (ParticleBurst_update dt pb)"
proof (cases "active pb")
  case False
  then show ?thesis
    using assms by (simp add: aged_def ParticleBurst_update_def)
next
  case True
  have "0 < life p' \<and> (\<exists>q \<in> set ps0. life p' = life q - (t + dt))"
    if "p' \<in> set (particles (ParticleBurst_update dt pb))" for p'
  proof -
    from that True obtain p where p: "p \<in> set (particles pb)"
      and p': "p' = integrate_particle dt p" and pos: "\<not> life p' \<le> 0"
      by (auto simp: ParticleBurst_update_def Let_def)
    from assms p obtain q where "q \<in> set ps0" "life p = life q - t"
      by (auto simp: aged_def)
    then show ?thesis
      using p' pos by (auto simp: integrate_particle_def)
  qed
  moreover have "active (ParticleBurst_update dt pb)
      \<longleftrightarrow> particles (ParticleBurst_update dt pb) \<noteq> []"
    using assms by (intro update_active_iff) (simp add: aged_def)
  ultimately show ?thesis
    by (simp add: aged_def)
qed

lemma aged_run_updates:
  "aged ps0 t pb \<Longrightarrow> aged ps0 (t + sum_list dts) (run_updates dts pb)"
proof (induction dts arbitrary: t pb)
  case Nil
  then show ?case by simp
next
  case (Cons dt dts)
  from Cons.IH [OF aged_update [OF Cons.prems, of dt]]
  show ?case by (simp add: add.assoc)
qed

lemma run_updates_finishes:
  assumes "aged (particles pb) 0 pb"
    and "\<forall>q \<in> set (particles pb). life q < sum_list dts"
  shows "finished (run_updates dts pb) \<and> particles (run_updates dts pb) = []"
proof -
  from aged_run_updates [OF assms(1), of dts]
  have a: "aged (particles pb) (sum_list dts) (run_updates dts pb)" by simp
  have "particles (run_updates dts pb) = []"
  proof (rule ccontr)
    assume "particles (run_updates dts pb) \<noteq> []"
    then obtain p where "p \<in> set (particles (run_updates dts pb))"
      by (cases "particles (run_updates dts pb)") auto
    with a obtain q where "q \<in> set (particles pb)" "0 < life p" "life p = life q - sum_list dts"
      by (auto simp: aged_def)
    with assms(2) show False by fastforce
  qed
  with a show ?thesis by (simp add: aged_def finished_def)
qed

lemma spawn_life_range:
  assumes "rnd (3 * i + 2) \<le> rand_max" "0 < rand_max" "0 < lifetime pb"
  shows "lifetime pb * 0.5 \<le> life (spawn_particle rand_max rnd x y pb i)"
    and "0 < life (spawn_particle rand_max rnd x y pb i)"
    and "life (spawn_particle rand_max rnd x y pb i) \<le> lifetime pb"
proof -
  let ?r = "real (rnd (3 * i + 2)) / real rand_max"
  have r: "0 \<le> ?r" "?r \<le> 1" using assms by simp_all
  have l: "life (spawn_particle rand_max rnd x y pb i) = lifetime pb * (0.5 + ?r * 0.5)"
    by (simp add: spawn_particle_def Let_def)
  have h: "0.5 \<le> 0.5 + ?r * 0.5" "0.5 + ?r * 0.5 \<le> 1" using r by simp_all
  have "lifetime pb * 0.5 \<le> lifetime pb * (0.5 + ?r * 0.5)"
    using h(1) assms(3) by (intro mult_left_mono) simp_all
  then show a: "lifetime pb * 0.5 \<le> life (spawn_particle rand_max rnd x y pb i)"
    unfolding l .
  have "0 < lifetime pb * 0.5" using assms(3) by simp
  with a show "0 < life (spawn_particle rand_max rnd x y pb i)" by linarith
  have "lifetime pb * (0.5 + ?r * 0.5) \<le> lifetime pb * 1"
    using h(2) assms(3) by (intro mult_left_mono) simp_all
  then show "life (spawn_particle rand_max rnd x y pb i) \<le> lifetime pb"
    unfolding l by simp
qed

text \<open>
  C6 as stated fails in the second variant: a burst started at a goal and then
  deactivated by the pause menu (Restart or Main Menu chosen during the celebration) is
  reachable and finished, with all its particles still in the collection.
\<close>

theorem burst_finished_with_particles_counterexample:
  "reachable_burst_inc 32767
     ((ParticleBurst_start 32767 (constant_rand 0) 81.2 0 ParticleBurst_ctor)\<lparr>active := False\<rparr>) \<and>
   finished ((ParticleBurst_start 32767 (constant_rand 0) 81.2 0 ParticleBurst_ctor)\<lparr>active := False\<rparr>) \<and>
   length (particles
     ((ParticleBurst_start 32767 (constant_rand 0) 81.2 0 ParticleBurst_ctor)\<lparr>active := False\<rparr>)) = 80"
proof -
  have "reachable_burst_inc 32767
     ((ParticleBurst_start 32767 (constant_rand 0) 81.2 0 ParticleBurst_ctor)\<lparr>active := False\<rparr>)"
    by (intro deactivated_inc started_inc constructed_inc)
  then show ?thesis
    by (simp add: finished_def ParticleBurst_start_def ParticleBurst_ctor_def)
qed

text \<open>
  C6, amended. \<^verbatim>\<open>finished()\<close> is the negation of \<open>active\<close>. In every state the first
  variant reaches it holds if and only if no particle remains; in every state the
  second variant reaches it holds whenever no particle remains (the converse is what
  the pause menu breaks). In both variants a burst started with a renderer, count 80
  and lifetime 1.0 is not finished right after \<^verbatim>\<open>start\<close>, holds 80 particles with lives
  in \<open>[0.5, 1.0]\<close>, and is finished and empty after any run of updates whose accumulated
  time exceeds the life of every particle.
\<close>

theorem burst_finished_iff_empty:
  "(reachable_burst rand_max pb \<longrightarrow> (finished pb \<longleftrightarrow> particles pb = [])) \<and>
   (reachable_burst_inc rand_max pb \<longrightarrow> (particles pb = [] \<longrightarrow> finished pb)) \<and>
   (renderer pb0 \<and> count pb0 = 80 \<and> lifetime pb0 = 1 \<and> 0 < rand_max \<and> (\<forall>k. rnd k \<le> rand_max) \<longrightarrow>
      \<not> finished (ParticleBurst_start rand_max rnd x y pb0) \<and>
      length (particles (ParticleBurst_start rand_max rnd x y pb0)) = 80 \<and>
      (\<forall>p \<in> set (particles (ParticleBurst_start rand_max rnd x y pb0)). 0.5 \<le> life p \<and> life p \<le> 1) \<and>
      (\<forall>dts. (\<forall>p \<in> set (particles (ParticleBurst_start rand_max rnd x y pb0)). life p < sum_list dts) \<longrightarrow>
         finished (run_updates dts (ParticleBurst_start rand_max rnd x y pb0)) \<and>
         particles (run_updates dts (ParticleBurst_start rand_max rnd x y pb0)) = []))"
proof (intro conjI impI)
  assume "reachable_burst rand_max pb"
  from reachable_burst_invariant [OF this]
  show "finished pb \<longleftrightarrow> particles pb = []" by (simp add: finished_def)
next
  assume "reachable_burst_inc rand_max pb" and "particles pb = []"
  with reachable_burst_inc_invariant [of rand_max pb]
  show "finished pb" by (simp add: finished_def)
next
  let ?s = "ParticleBurst_start rand_max rnd x y pb0"
  assume h: "renderer pb0 \<and> count pb0 = 80 \<and> lifetime pb0 = 1 \<and> 0 < rand_max \<and> (\<forall>k. rnd k \<le> rand_max)"
  then have c: "renderer pb0" "0 < count pb0" by simp_all
  have ps: "particles ?s = map (spawn_particle rand_max rnd x y pb0) [0..<80]"
    using h by (simp add: ParticleBurst_start_def)
  have lives: "0.5 \<le> life p \<and> life p \<le> 1 \<and> 0 < life p" if "p \<in> set (particles ?s)" for p
  proof -
    from that obtain i where p: "p = spawn_particle rand_max rnd x y pb0 i"
      unfolding ps by auto
    have "rnd (3 * i + 2) \<le> rand_max" "0 < rand_max" "0 < lifetime pb0" using h by simp_all
    then show ?thesis
      using spawn_life_range [of rnd i rand_max pb0 x y] h by (simp add: p)
  qed
  show "\<not> finished ?s"
    using start_active_nonempty(1) [OF c] by (simp add: finished_def)
  show "length (particles ?s) = 80"
    by (simp add: ps)
  show "\<forall>p \<in> set (particles ?s). 0.5 \<le> life p \<and> life p \<le> 1"
    using lives by blast
  have a: "aged (particles ?s) 0 ?s"
    unfolding aged_def
    using start_active_nonempty(1,2) [OF c, of rand_max rnd x y] lives by auto
  show "\<forall>dts. (\<forall>p \<in> set (particles ?s). life p < sum_list dts) \<longrightarrow>
         finished (run_updates dts ?s) \<and> particles (run_updates dts ?s) = []"
    using run_updates_finishes [OF a] by blast
qed

text \<open>
  Witness: with \<^verbatim>\<open>rand()\<close> always 0 every particle lives 0.5 seconds; the burst started
  at \<open>(81.2, 0)\<close> is reachable and not finished, and two updates of 0.3 seconds finish
  and empty it; the burst as constructed is empty and finished.
\<close>

theorem burst_finished_iff_empty_witness:
  "reachable_burst 32767 (ParticleBurst_start 32767 (constant_rand 0) 81.2 0 ParticleBurst_ctor) \<and>
   reachable_burst_inc 32767 (ParticleBurst_start 32767 (constant_rand 0) 81.2 0 ParticleBurst_ctor) \<and>
   \<not> finished (ParticleBurst_start 32767 (constant_rand 0) 81.2 0 ParticleBurst_ctor) \<and>
   particles (ParticleBurst_start 32767 (constant_rand 0) 81.2 0 ParticleBurst_ctor) \<noteq> [] \<and>
   finished (run_updates [0.3, 0.3]
     (ParticleBurst_start 32767 (constant_rand 0) 81.2 0 ParticleBurst_ctor)) \<and>
   particles (run_updates [0.3, 0.3]
     (ParticleBurst_start 32767 (constant_rand 0) 81.2 0 ParticleBurst_ctor)) = [] \<and>
   reachable_burst_inc 32767 ParticleBurst_ctor \<and> particles ParticleBurst_ctor = [] \<and>
   finished ParticleBurst_ctor"
proof -
  let ?s = "ParticleBurst_start 32767 (constant_rand 0) 81.2 0 ParticleBurst_ctor"
  have r: "reachable_burst 32767 ?s"
    by (intro started constructed)
  have r': "reachable_burst_inc 32767 ?s"
    by (intro started_inc constructed_inc)
  have h: "renderer ParticleBurst_ctor \<and> count ParticleBurst_ctor = 80 \<and>
      lifetime ParticleBurst_ctor = 1 \<and> (0::nat) < 32767 \<and> (\<forall>k. constant_rand 0 k \<le> 32767)"
    by (simp add: ParticleBurst_ctor_def constant_rand_def)
  have l: "\<forall>p \<in> set (particles ?s). life p < sum_list [0.3, 0.3]"
    by (simp add: ParticleBurst_start_def ParticleBurst_ctor_def spawn_particle_def
        constant_rand_def)
  note t = burst_finished_iff_empty [of 32767 ?s ParticleBurst_ctor "constant_rand 0" "81.2" 0]
  from t h have nf: "\<not> finished ?s" by blast
  from t r nf have ne: "particles ?s \<noteq> []" by blast
  from t h l have "finished (run_updates [0.3, 0.3] ?s) \<and> particles (run_updates [0.3, 0.3] ?s) = []"
    by blast
  moreover have e: "reachable_burst_inc 32767 ParticleBurst_ctor" "particles ParticleBurst_ctor = []"
    by (rule constructed_inc) (simp add: ParticleBurst_ctor_def)
  moreover have "finished ParticleBurst_ctor"
    using burst_finished_iff_empty [of 32767 ParticleBurst_ctor ParticleBurst_ctor
        "constant_rand 0" "81.2" 0] e by blast
  ultimately show ?thesis using r r' nf ne by blast
qed

section \<open>Ball reset\<close>

text \<open>
  C10 as stated fails: the serve direction does not alternate after each goal. In a
  match between friends with no key held, the ball served to the right (\<open>vel.x = 95\<close>) is
  returned by the right paddle (\<open>vel.x = -94.9999\<close>) and passes the left goal line, so
  player 2 scores; the reset then negates the velocity and serves to the right again.
\<close>

theorem serve_repeats_counterexample:
  "X (bvel friend_ball) = 95 \<and>
   BallController_update 0.72 friend_ball =
     Inr (friend_ball\<lparr>bpos := \<lparr>X = 66.8, Y = 0\<rparr>, bvel := \<lparr>X = -94.9999, Y = 0\<rparr>\<rparr>) \<and>
   BallController_update 2 (friend_ball\<lparr>bpos := \<lparr>X = 66.8, Y = 0\<rparr>, bvel := \<lparr>X = -94.9999, Y = 0\<rparr>\<rparr>) =
     Inr (friend_ball\<lparr>bpos := \<lparr>X = -81.2, Y = 0\<rparr>, bvel := \<lparr>X = -94.9999, Y = 0\<rparr>,
                      scored := True, winner := 2,
                      player2 := Some (right_paddle\<lparr>ai_mode := False, score := 1\<rparr>)\<rparr>) \<and>
   X (bvel (ball_controller (Ball_reset
     \<lparr>ball_controller =
        friend_ball\<lparr>bpos := \<lparr>X = -81.2, Y = 0\<rparr>, bvel := \<lparr>X = -94.9999, Y = 0\<rparr>,
                      scored := True, winner := 2,
                      player2 := Some (right_paddle\<lparr>ai_mode := False, score := 1\<rparr>)\<rparr>,
      ball_color = 0x0000FFFF\<rparr>))) = 94.9999"
proof -
  have a: "X (bvel friend_ball) = 95"
    by (simp add: match_start_defs)
  have b: "BallController_update 0.72 friend_ball =
     Inr (friend_ball\<lparr>bpos := \<lparr>X = 66.8, Y = 0\<rparr>, bvel := \<lparr>X = -94.9999, Y = 0\<rparr>\<rparr>)"
    by (simp add: match_start_defs ball_collision_defs BallController_update_def update_physics_def Let_def)
  have c: "BallController_update 2 (friend_ball\<lparr>bpos := \<lparr>X = 66.8, Y = 0\<rparr>, bvel := \<lparr>X = -94.9999, Y = 0\<rparr>\<rparr>) =
     Inr (friend_ball\<lparr>bpos := \<lparr>X = -81.2, Y = 0\<rparr>, bvel := \<lparr>X = -94.9999, Y = 0\<rparr>,
                      scored := True, winner := 2,
                      player2 := Some (right_paddle\<lparr>ai_mode := False, score := 1\<rparr>)\<rparr>)"
    by (simp add: match_start_defs ball_collision_defs BallController_update_def update_physics_def
        increment_score_def Let_def)
  have d: "X (bvel (ball_controller (Ball_reset
     \<lparr>ball_controller =
        friend_ball\<lparr>bpos := \<lparr>X = -81.2, Y = 0\<rparr>, bvel := \<lparr>X = -94.9999, Y = 0\<rparr>,
                      scored := True, winner := 2,
                      player2 := Some (right_paddle\<lparr>ai_mode := False, score := 1\<rparr>)\<rparr>,
      ball_color = 0x0000FFFF\<rparr>))) = 94.9999"
    by (simp add: Ball_reset_def)
  from a b c d show ?thesis by blast
qed


text \<open>
  C10, amended. After \<^verbatim>\<open>Ball::reset\<close> (the same in both variants) the ball is at the
  origin, its vertical velocity is zero, \<open>scored\<close> is false and \<open>winner\<close> is zero; the
  horizontal velocity is the negation of the one before the reset, so the ball is served
  opposite to the direction it had when it was reset, and its magnitude is carried over
  unchanged: the reset takes no configured speed and leaves size and players alone.
\<close>

theorem Ball_reset_negates_velocity:
  "bpos (ball_controller (Ball_reset b)) = \<lparr>X = 0, Y = 0\<rparr> \<and>
   Y (bvel (ball_controller (Ball_reset b))) = 0 \<and>
   \<not> scored (ball_controller (Ball_reset b)) \<and>
   winner (ball_controller (Ball_reset b)) = 0 \<and>
   X (bvel (ball_controller (Ball_reset b))) = - X (bvel (ball_controller b)) \<and>
   \<bar>X (bvel (ball_controller (Ball_reset b)))\<bar> = \<bar>X (bvel (ball_controller b))\<bar> \<and>
   (X (bvel (ball_controller (Ball_reset b))) > 0 \<longleftrightarrow> X (bvel (ball_controller b)) < 0) \<and>
   bsize (ball_controller (Ball_reset b)) = bsize (ball_controller b) \<and>
   player1 (ball_controller (Ball_reset b)) = player1 (ball_controller b) \<and>
   player2 (ball_controller (Ball_reset b)) = player2 (ball_controller b)"
  by (simp add: Ball_reset_def)

end
